theory Spec2Isabelle
  imports Main "HOL-Library.Word" "HOL-Library.Signed_Division"
begin

unbundle bit_operations_syntax

section \<open>nvidia_stats.c: data model\<close>

text \<open>
  The program reads GPU telemetry through a driver library that it loads at run time.
  Everything outside the C file (the dynamic loader and the driver behind
  \<^verbatim>\<open>nvapi_QueryInterface\<close>) is a parameter of the model, the record \<open>env\<close> below; the
  driver has a state of its own, of an arbitrary type \<open>'d\<close>, that every call may change.

  \<^verbatim>\<open>int32_t\<close> and \<^verbatim>\<open>uint32_t\<close> are \<open>32 word\<close>: arithmetic wraps modulo \<open>2 ^ 32\<close>, the
  signed reading is \<open>sint\<close>, signed comparison is \<open><s\<close>. The \<^verbatim>\<open>int\<close> return codes of the
  C functions (0, -1, and the exit code 0 or 1) are \<open>int\<close>.
\<close>

type_synonym uint32_t = "32 word"

type_synonym int32_t = "32 word"

type_synonym NvAPI_Status = "32 word"

type_synonym NvPhysicalGpuHandle = nat

type_synonym lib_handle = nat

type_synonym fn_ptr = nat

definition NVAPI_MAX_PHYSICAL_GPUS :: nat where
  "NVAPI_MAX_PHYSICAL_GPUS = 64"

definition QUERY_NVAPI_INITIALIZE :: uint32_t where
  "QUERY_NVAPI_INITIALIZE = 0x0150e828"

definition QUERY_NVAPI_UNLOAD :: uint32_t where
  "QUERY_NVAPI_UNLOAD = 0xd22bdd7e"

definition QUERY_NVAPI_ENUM_PHYSICAL_GPUS :: uint32_t where
  "QUERY_NVAPI_ENUM_PHYSICAL_GPUS = 0xe5ac921f"

definition QUERY_NVAPI_THERMALS :: uint32_t where
  "QUERY_NVAPI_THERMALS = 0x65fe3aad"

definition QUERY_NVAPI_VOLTAGE :: uint32_t where
  "QUERY_NVAPI_VOLTAGE = 0x465f9bcf"

text \<open>
  \<^verbatim>\<open>typedef struct { uint32_t version; int32_t mask; int32_t values[40]; } NvApiThermals;\<close>
  The array is a function of the index; only the indices below 40 are part of the
  structure. \<^verbatim>\<open>memset(&thermals, 0, sizeof(thermals))\<close> is \<open>zero_NvApiThermals\<close>.
\<close>

record NvApiThermals =
  th_version :: uint32_t
  th_mask :: int32_t
  th_values :: "nat \<Rightarrow> int32_t"

definition zero_NvApiThermals :: NvApiThermals where
  "zero_NvApiThermals = \<lparr>th_version = 0, th_mask = 0, th_values = (\<lambda>_. 0)\<rparr>"

text \<open>
  \<^verbatim>\<open>typedef struct { uint32_t version; uint32_t flags; uint32_t padding_1[8];
                   uint32_t value_uv; uint32_t padding_2[8]; } NvApiVoltage;\<close>
\<close>

record NvApiVoltage =
  vo_version :: uint32_t
  vo_flags :: uint32_t
  vo_padding_1 :: "nat \<Rightarrow> uint32_t"
  vo_value_uv :: uint32_t
  vo_padding_2 :: "nat \<Rightarrow> uint32_t"

definition zero_NvApiVoltage :: NvApiVoltage where
  "zero_NvApiVoltage =
     \<lparr>vo_version = 0, vo_flags = 0, vo_padding_1 = (\<lambda>_. 0), vo_value_uv = 0,
      vo_padding_2 = (\<lambda>_. 0)\<rparr>"

text \<open>
  \<^verbatim>\<open>sizeof\<close>: every field is a 4-byte integer or an array of them, so the structures have
  no padding and their size is the sum of the sizes of the fields, in declaration order.
\<close>

definition sizeof_NvApiThermals :: nat where
  "sizeof_NvApiThermals = 4 + 4 + 4 * 40"

definition sizeof_NvApiVoltage :: nat where
  "sizeof_NvApiVoltage = 4 + 4 + 4 * 8 + 4 + 4 * 8"

text \<open>
  The calls that leave the program, in the order they are made, each with what it
  answered; \<^verbatim>\<open>dlclose\<close> is recorded without its result, which the program reads nowhere. A
  structure call records the structure as it is passed, the status returned and the
  structure as the driver leaves it.
\<close>

datatype event =
    DlOpen "lib_handle option"
  | DlSym "fn_ptr option"
  | DlClose
  | QueryInterface uint32_t bool
  | CallInitialize NvAPI_Status
  | CallUnload NvAPI_Status
  | CallEnumPhysicalGPUs NvAPI_Status uint32_t
  | CallThermals NvPhysicalGpuHandle NvApiThermals NvAPI_Status NvApiThermals
  | CallVoltage NvPhysicalGpuHandle NvApiVoltage NvAPI_Status NvApiVoltage

text \<open>
  Standard output, one constructor for each \<^verbatim>\<open>printf\<close> line of the source with its
  arguments; a format that ends in two newlines is followed by \<open>Blank\<close>. \<open>CoreVoltage v\<close>
  is the line \<^verbatim>\<open>Core Voltage: %.3f V (%u uV)\<close>, whose two numbers are both computed from
  \<open>v\<close> (the first one as \<^verbatim>\<open>(float)v / 1000000.0f\<close>).
\<close>

datatype out_line =
    Rule
  | Title
  | Subtitle
  | Blank
  | InitOk
  | FoundGpus uint32_t
  | DashRule
  | GpuHeader uint32_t
  | ThermalsMask int32_t
  | CoreVoltage uint32_t
  | CoreVoltageNotAvailable
  | HotspotTemperature int32_t
  | HotspotNotAvailable
  | MemoryTemperature int32_t
  | MemoryNotAvailable
  | HotspotErrorReading
  | MemoryErrorReading
  | Done

text \<open>
  The conversions of \<^verbatim>\<open>printf\<close> that the report uses. Characters are bytes. \<^verbatim>\<open>%u\<close> and
  \<^verbatim>\<open>%d\<close> print decimal digits; \<^verbatim>\<open>%08x\<close> prints the 32-bit pattern of its argument as
  eight lower-case hexadecimal digits, which a 32-bit value never exceeds.
\<close>

definition digit_char :: "nat \<Rightarrow> char" where
  "digit_char d = ''0123456789abcdef'' ! d"

fun show_nat :: "nat \<Rightarrow> string" where
  "show_nat n =
     (if n < 10 then [digit_char n] else show_nat (n div 10) @ [digit_char (n mod 10)])"

definition show_u :: "uint32_t \<Rightarrow> string" where
  "show_u x = show_nat (unat x)"

definition show_d :: "int32_t \<Rightarrow> string" where
  "show_d x =
     (if sint x < 0 then ''-'' @ show_nat (nat (- sint x)) else show_nat (nat (sint x)))"

definition show_08x :: "uint32_t \<Rightarrow> string" where
  "show_08x x = map (\<lambda>k. digit_char (unat x div 16 ^ k mod 16)) [7, 6, 5, 4, 3, 2, 1, 0]"

text \<open>
  \<^verbatim>\<open>(float)voltage_uv / 1000000.0f\<close> is evaluated in IEEE 754 binary32, every operation
  rounded to nearest with ties to even, as \<^verbatim>\<open>float\<close> expressions are on x86-64 and AArch64.
  \<open>rne n d\<close> is the quotient \<open>n / d\<close> rounded to an integer in that way. The conversion of
  the 32-bit integer keeps 24 significant bits, and its result is again an integer. The
  quotient by 1000000 is a pair \<open>(m, s)\<close> standing for \<open>m / 2 ^ s\<close>, with \<open>s\<close> chosen so that
  \<open>m\<close> has 24 significant bits: \<open>2 ^ 23 * 1000000\<close> has 43 bits, so the shift is 43 or 44
  minus the number of bits of the dividend. \<^verbatim>\<open>%.3f\<close> prints the exact value of that
  quotient rounded to three decimals, ties to even, as glibc does; \<open>thousandths\<close> is that
  rounded value in units of 0.001.
\<close>

definition rne :: "nat \<Rightarrow> nat \<Rightarrow> nat" where
  "rne n d =
     (let q = n div d; r = n mod d in
      if 2 * r < d then q else if d < 2 * r then q + 1 else if even q then q else q + 1)"

fun bit_length :: "nat \<Rightarrow> nat" where
  "bit_length n = (if n = 0 then 0 else Suc (bit_length (n div 2)))"

definition f32_round :: "nat \<Rightarrow> nat" where
  "f32_round n = rne n (2 ^ (bit_length n - 24)) * 2 ^ (bit_length n - 24)"

definition f32_of_u32 :: "uint32_t \<Rightarrow> nat" where
  "f32_of_u32 x = f32_round (unat x)"

definition quotient_shift :: "nat \<Rightarrow> nat" where
  "quotient_shift f =
     (if f * 2 ^ (43 - bit_length f) < 2 ^ 23 * 1000000 then 44 - bit_length f
      else 43 - bit_length f)"

definition f32_div_1000000 :: "nat \<Rightarrow> nat \<times> nat" where
  "f32_div_1000000 f = (rne (f * 2 ^ quotient_shift f) 1000000, quotient_shift f)"

definition thousandths :: "nat \<times> nat \<Rightarrow> nat" where
  "thousandths q = rne (fst q * 1000) (2 ^ snd q)"

definition volts_thousandths :: "uint32_t \<Rightarrow> nat" where
  "volts_thousandths x = thousandths (f32_div_1000000 (f32_of_u32 x))"

definition show_3f :: "nat \<Rightarrow> string" where
  "show_3f t =
     show_nat (t div 1000) @ ''.'' @
     [digit_char (t div 100 mod 10), digit_char (t div 10 mod 10), digit_char (t mod 10)]"

text \<open>
  The text of each line, without its newline. The source file is UTF-8: the micro sign
  of the voltage line is the two bytes C2 B5 and the degree sign of the temperature
  lines is the two bytes C2 B0.
\<close>

fun render :: "out_line \<Rightarrow> string" where
  "render Rule = ''=================================================''"
| "render Title = ''NVIDIA GPU Stats Reader''"
| "render Subtitle = ''Using undocumented NVAPI calls from libnvidia-api.so.1''"
| "render Blank = []"
| "render InitOk = ''NVAPI initialized successfully.''"
| "render (FoundGpus n) = ''Found '' @ show_u n @ '' NVIDIA GPU(s)''"
| "render DashRule = ''-------------------------------------------------''"
| "render (GpuHeader i) = ''GPU '' @ show_u i @ '':''"
| "render (ThermalsMask m) = ''Thermals mask: 0x'' @ show_08x m"
| "render (CoreVoltage v) =
     ''Core Voltage: '' @ show_3f (volts_thousandths v) @ '' V ('' @ show_u v @ '' '' @
     [CHR 0xC2, CHR 0xB5] @ ''V)''"
| "render CoreVoltageNotAvailable = ''Core Voltage: Not available''"
| "render (HotspotTemperature t) =
     ''Hotspot Temperature: '' @ show_d t @ '' '' @ [CHR 0xC2, CHR 0xB0] @ ''C''"
| "render HotspotNotAvailable = ''Hotspot Temperature: Not available''"
| "render (MemoryTemperature t) =
     ''Memory Temperature: '' @ show_d t @ '' '' @ [CHR 0xC2, CHR 0xB0] @ ''C''"
| "render MemoryNotAvailable = ''Memory Temperature: Not available''"
| "render HotspotErrorReading = ''Hotspot Temperature: Error reading''"
| "render MemoryErrorReading = ''Memory Temperature: Error reading''"
| "render Done = ''Done.''"

text \<open>Standard error, one constructor for each \<^verbatim>\<open>fprintf(stderr, ...)\<close>.\<close>

datatype err_line =
    ErrCouldNotLoad
  | ErrMakeSureDrivers
  | ErrNoQueryInterface
  | ErrNoFunction uint32_t
  | ErrInitializeFailed NvAPI_Status
  | ErrEnumFailed NvAPI_Status
  | WarnInitialThermals
  | ErrGetThermalsFailed NvAPI_Status
  | ErrGetVoltageFailed NvAPI_Status

text \<open>
  What the C semantics leaves undefined and the program can reach: a call through a null
  pointer, a call into a module that is no longer mapped, \<^verbatim>\<open>dlclose(NULL)\<close>, and a read
  past the end of \<^verbatim>\<open>handles[64]\<close>.
\<close>

datatype fault =
    NullCall
  | StaleCall
  | CloseNull
  | OutOfBounds

text \<open>
  The outside world. \<open>dlopen_result\<close> and \<open>dlsym_result\<close> are what the loader answers
  (\<open>None\<close> is \<^verbatim>\<open>NULL\<close>). \<open>query_interface\<close> says whether the driver resolves an ID to a
  non-null pointer; the pointer resolved for an ID is only ever called at the type the
  program casts it to, which runs the matching entry below. Every entry gets the driver
  state and returns the new one. The structure entries get the structure by reference:
  they return the whole structure as the driver leaves it. \<open>nv_enum\<close> returns the
  contents of the \<^verbatim>\<open>handles\<close> buffer and of \<^verbatim>\<open>*count\<close> after the call.
\<close>

record 'd env =
  dlopen_result :: "lib_handle option"
  dlsym_result :: "fn_ptr option"
  query_interface :: "uint32_t \<Rightarrow> 'd \<Rightarrow> bool \<times> 'd"
  nv_initialize :: "'d \<Rightarrow> NvAPI_Status \<times> 'd"
  nv_unload :: "'d \<Rightarrow> NvAPI_Status \<times> 'd"
  nv_enum :: "'d \<Rightarrow> NvAPI_Status \<times> (nat \<Rightarrow> NvPhysicalGpuHandle) \<times> uint32_t \<times> 'd"
  nv_thermals :: "NvPhysicalGpuHandle \<Rightarrow> NvApiThermals \<Rightarrow> 'd \<Rightarrow> NvAPI_Status \<times> NvApiThermals \<times> 'd"
  nv_voltage :: "NvPhysicalGpuHandle \<Rightarrow> NvApiVoltage \<Rightarrow> 'd \<Rightarrow> NvAPI_Status \<times> NvApiVoltage \<times> 'd"

text \<open>
  The state of the process: the two globals of the C file, the number of times the module
  is currently mapped (raised by \<^verbatim>\<open>dlopen\<close>, lowered by \<^verbatim>\<open>dlclose\<close>), the driver's state,
  and what has been called and printed so far.
\<close>

record 'd world =
  nvapi_lib :: "lib_handle option"
  nvapi_QueryInterface :: "fn_ptr option"
  mapped :: nat
  driver :: 'd
  trace :: "event list"
  out :: "out_line list"
  err :: "err_line list"

definition initial_world :: "'d \<Rightarrow> 'd world" where
  "initial_world d =
     \<lparr>nvapi_lib = None, nvapi_QueryInterface = None, mapped = 0, driver = d,
      trace = [], out = [], err = []\<rparr>"

definition log_event :: "event \<Rightarrow> 'd world \<Rightarrow> 'd world" where
  "log_event e w = w\<lparr>trace := trace w @ [e]\<rparr>"

definition printf :: "out_line list \<Rightarrow> 'd world \<Rightarrow> 'd world" where
  "printf ls w = w\<lparr>out := out w @ ls\<rparr>"

definition eprintf :: "err_line list \<Rightarrow> 'd world \<Rightarrow> 'd world" where
  "eprintf ls w = w\<lparr>err := err w @ ls\<rparr>"

section \<open>The loader and the session\<close>

text \<open>
  \<^verbatim>\<open>dlclose\<close> of a handle lowers the number of mappings. For a handle that is no longer
  open it unmaps nothing and returns non-zero (POSIX). The program ignores what
  \<^verbatim>\<open>dlclose\<close> returns at each of its calls, so only the new state is returned here; the
  event \<open>DlClose\<close> records the call.
\<close>

definition dlclose :: "lib_handle option \<Rightarrow> 'd world \<Rightarrow> fault + 'd world" where
  "dlclose h w =
     (case h of
        None \<Rightarrow> Inl CloseNull
      | Some _ \<Rightarrow>
          if mapped w = 0 then Inr (log_event DlClose w)
          else Inr (log_event DlClose (w\<lparr>mapped := mapped w - 1\<rparr>)))"

text \<open>
  \<^verbatim>\<open>load_nvapi\<close>: both globals are assigned whatever the loader answers; when the symbol is
  missing the module is closed but \<open>nvapi_lib\<close> keeps the handle.
\<close>

definition load_nvapi :: "'d env \<Rightarrow> 'd world \<Rightarrow> fault + (int \<times> 'd world)" where
  "load_nvapi env w =
     (let w1 = log_event (DlOpen (dlopen_result env))
            (w\<lparr>nvapi_lib := dlopen_result env,
               mapped := (if dlopen_result env = None then mapped w else mapped w + 1)\<rparr>) in
      case nvapi_lib w1 of
        None \<Rightarrow> Inr (- 1, eprintf [ErrCouldNotLoad, ErrMakeSureDrivers] w1)
      | Some h \<Rightarrow>
          (let w2 = log_event (DlSym (dlsym_result env)) (w1\<lparr>nvapi_QueryInterface := dlsym_result env\<rparr>) in
           case nvapi_QueryInterface w2 of
             None \<Rightarrow>
               (case dlclose (nvapi_lib w2) (eprintf [ErrNoQueryInterface] w2) of
                  Inl f \<Rightarrow> Inl f
                | Inr w3 \<Rightarrow> Inr (- 1, w3))
           | Some q \<Rightarrow> Inr (0, w2)))"

text \<open>
  \<^verbatim>\<open>get_nvapi_function\<close> calls through the global without a check. The result is whether
  the pointer is non-null.
\<close>

definition get_nvapi_function :: "'d env \<Rightarrow> uint32_t \<Rightarrow> 'd world \<Rightarrow> fault + (bool \<times> 'd world)" where
  "get_nvapi_function env ident w =
     (case nvapi_QueryInterface w of
        None \<Rightarrow> Inl NullCall
      | Some _ \<Rightarrow>
          if mapped w = 0 then Inl StaleCall
          else
            (case query_interface env ident (driver w) of
               (func, d') \<Rightarrow>
                 (let w1 = log_event (QueryInterface ident func) (w\<lparr>driver := d'\<rparr>) in
                  if \<not> func then Inr (func, eprintf [ErrNoFunction ident] w1)
                  else Inr (func, w1))))"

definition init_nvapi :: "'d env \<Rightarrow> 'd world \<Rightarrow> fault + (int \<times> 'd world)" where
  "init_nvapi env w =
     (case get_nvapi_function env QUERY_NVAPI_INITIALIZE w of
        Inl f \<Rightarrow> Inl f
      | Inr (initialize, w1) \<Rightarrow>
          if \<not> initialize then Inr (- 1, w1)
          else
            (case nv_initialize env (driver w1) of
               (status, d') \<Rightarrow>
                 (let w2 = log_event (CallInitialize status) (w1\<lparr>driver := d'\<rparr>) in
                  if status \<noteq> 0 then Inr (- 1, eprintf [ErrInitializeFailed status] w2)
                  else Inr (0, printf [InitOk, Blank] w2))))"

definition unload_nvapi :: "'d env \<Rightarrow> 'd world \<Rightarrow> fault + 'd world" where
  "unload_nvapi env w =
     (case (if nvapi_QueryInterface w \<noteq> None then
              (case get_nvapi_function env QUERY_NVAPI_UNLOAD w of
                 Inl f \<Rightarrow> Inl f
               | Inr (unload, w1) \<Rightarrow>
                   if unload then
                     (case nv_unload env (driver w1) of
                        (status, d') \<Rightarrow> Inr (log_event (CallUnload status) (w1\<lparr>driver := d'\<rparr>)))
                   else Inr w1)
            else Inr w) of
        Inl f \<Rightarrow> Inl f
      | Inr w2 \<Rightarrow> if nvapi_lib w2 \<noteq> None then dlclose (nvapi_lib w2) w2 else Inr w2)"

text \<open>
  \<^verbatim>\<open>enum_physical_gpus(handles, &count)\<close>: the two out-parameters are passed in and
  returned; they change only when the driver entry is called.
\<close>

definition enum_physical_gpus ::
  "'d env \<Rightarrow> (nat \<Rightarrow> NvPhysicalGpuHandle) \<Rightarrow> uint32_t \<Rightarrow> 'd world \<Rightarrow>
   fault + (int \<times> (nat \<Rightarrow> NvPhysicalGpuHandle) \<times> uint32_t \<times> 'd world)" where
  "enum_physical_gpus env handles count w =
     (case get_nvapi_function env QUERY_NVAPI_ENUM_PHYSICAL_GPUS w of
        Inl f \<Rightarrow> Inl f
      | Inr (enum_gpus, w1) \<Rightarrow>
          if \<not> enum_gpus then Inr (- 1, handles, count, w1)
          else
            (case nv_enum env (driver w1) of
               (status, handles', count', d') \<Rightarrow>
                 (let w2 = log_event (CallEnumPhysicalGPUs status count') (w1\<lparr>driver := d'\<rparr>) in
                  if status \<noteq> 0 then Inr (- 1, handles', count', eprintf [ErrEnumFailed status] w2)
                  else Inr (0, handles', count', w2))))"

section \<open>The sensor mask prober\<close>

text \<open>The version stamps: \<^verbatim>\<open>sizeof(NvApiThermals) | (2 << 16)\<close> and \<^verbatim>\<open>sizeof(NvApiVoltage) | (1 << 16)\<close>.\<close>

definition thermals_stamp :: uint32_t where
  "thermals_stamp = word_of_nat sizeof_NvApiThermals OR push_bit 16 2"

definition voltage_stamp :: uint32_t where
  "voltage_stamp = word_of_nat sizeof_NvApiVoltage OR push_bit 16 1"

text \<open>
  The driver's thermal entry, called with \<^verbatim>\<open>&thermals\<close>: the structure the
  driver leaves replaces the one passed.
\<close>

definition call_thermals ::
  "'d env \<Rightarrow> NvPhysicalGpuHandle \<Rightarrow> NvApiThermals \<Rightarrow> 'd world \<Rightarrow>
   NvAPI_Status \<times> NvApiThermals \<times> 'd world" where
  "call_thermals env handle thermals w =
     (case nv_thermals env handle thermals (driver w) of
        (status, thermals', d') \<Rightarrow>
          (status, thermals', log_event (CallThermals handle thermals status thermals') (w\<lparr>driver := d'\<rparr>)))"

definition call_voltage ::
  "'d env \<Rightarrow> NvPhysicalGpuHandle \<Rightarrow> NvApiVoltage \<Rightarrow> 'd world \<Rightarrow>
   NvAPI_Status \<times> NvApiVoltage \<times> 'd world" where
  "call_voltage env handle voltage w =
     (case nv_voltage env handle voltage (driver w) of
        (status, voltage', d') \<Rightarrow>
          (status, voltage', log_event (CallVoltage handle voltage status voltage') (w\<lparr>driver := d'\<rparr>)))"

text \<open>
  The loop \<^verbatim>\<open>for (int bit = 0; bit < 32; bit++)\<close> of \<^verbatim>\<open>calculate_thermals_mask\<close>, entered
  at \<open>bit_n\<close> with the structure as the previous call left it. \<^verbatim>\<open>1 << bit\<close> and
  \<^verbatim>\<open>thermals.mask - 1\<close> are taken modulo \<open>2 ^ 32\<close>; the value returned on a failure is read
  back from the structure after the call.
\<close>

function probe_bits ::
  "'d env \<Rightarrow> NvPhysicalGpuHandle \<Rightarrow> nat \<Rightarrow> NvApiThermals \<Rightarrow> 'd world \<Rightarrow> int32_t \<times> 'd world" where
  "probe_bits env handle bit_n thermals w =
     (if bit_n < 32 then
        (case call_thermals env handle (thermals\<lparr>th_mask := push_bit bit_n 1\<rparr>) w of
           (status, thermals', w') \<Rightarrow>
             if status \<noteq> 0 then (th_mask thermals' - 1, w')
             else probe_bits env handle (bit_n + 1) thermals' w')
      else (0xFFFFFFFF, w))"
  by pat_completeness auto
termination
  by (relation "measure (\<lambda>(env, handle, bit_n, thermals, w). 32 - bit_n)") auto

definition calculate_thermals_mask ::
  "'d env \<Rightarrow> NvPhysicalGpuHandle \<Rightarrow> 'd world \<Rightarrow> fault + (int32_t \<times> 'd world)" where
  "calculate_thermals_mask env handle w =
     (case get_nvapi_function env QUERY_NVAPI_THERMALS w of
        Inl f \<Rightarrow> Inl f
      | Inr (get_thermals, w1) \<Rightarrow>
          if \<not> get_thermals then Inr (1, w1)
          else
            (case call_thermals env handle
                    (zero_NvApiThermals\<lparr>th_version := thermals_stamp, th_mask := 1\<rparr>) w1 of
               (status, thermals', w2) \<Rightarrow>
                 if status \<noteq> 0 then Inr (1, eprintf [WarnInitialThermals] w2)
                 else Inr (probe_bits env handle 0 thermals' w2)))"

section \<open>The telemetry readers\<close>

text \<open>C's \<^verbatim>\<open>/\<close> on \<^verbatim>\<open>int32_t\<close>: the quotient of the signed values, truncated towards zero.\<close>

definition c_div :: "int32_t \<Rightarrow> int32_t \<Rightarrow> int32_t" where
  "c_div a b = word_of_int (sint a sdiv sint b)"

text \<open>
  The decoding of one slot in \<^verbatim>\<open>get_thermals\<close>: \<^verbatim>\<open>raw / 256\<close> when that lies strictly
  between 0 and 255, and -1 ("not available") otherwise.
\<close>

definition decode_temperature :: "int32_t \<Rightarrow> int32_t" where
  "decode_temperature raw =
     (let t = c_div raw 256 in if 0 <s t \<and> t <s 255 then t else - 1)"

text \<open>
  \<^verbatim>\<open>get_thermals(handle, mask, &hotspot, &vram)\<close>: the two out-parameters are passed in and
  returned, and are written only when the call succeeds.
\<close>

definition get_thermals ::
  "'d env \<Rightarrow> NvPhysicalGpuHandle \<Rightarrow> int32_t \<Rightarrow> int32_t \<Rightarrow> int32_t \<Rightarrow> 'd world \<Rightarrow>
   fault + (int \<times> int32_t \<times> int32_t \<times> 'd world)" where
  "get_thermals env handle mask_arg hotspot vram w =
     (case get_nvapi_function env QUERY_NVAPI_THERMALS w of
        Inl f \<Rightarrow> Inl f
      | Inr (get_thermals, w1) \<Rightarrow>
          if \<not> get_thermals then Inr (- 1, hotspot, vram, w1)
          else
            (case call_thermals env handle
                    (zero_NvApiThermals\<lparr>th_version := thermals_stamp, th_mask := mask_arg\<rparr>) w1 of
               (status, thermals', w2) \<Rightarrow>
                 if status \<noteq> 0 then
                   Inr (- 1, hotspot, vram, eprintf [ErrGetThermalsFailed status] w2)
                 else
                   Inr (0, decode_temperature (th_values thermals' 9),
                        decode_temperature (th_values thermals' 15), w2)))"

definition get_voltage ::
  "'d env \<Rightarrow> NvPhysicalGpuHandle \<Rightarrow> uint32_t \<Rightarrow> 'd world \<Rightarrow>
   fault + (int \<times> uint32_t \<times> 'd world)" where
  "get_voltage env handle voltage_uv w =
     (case get_nvapi_function env QUERY_NVAPI_VOLTAGE w of
        Inl f \<Rightarrow> Inl f
      | Inr (get_voltage, w1) \<Rightarrow>
          if \<not> get_voltage then Inr (- 1, voltage_uv, w1)
          else
            (case call_voltage env handle (zero_NvApiVoltage\<lparr>vo_version := voltage_stamp\<rparr>) w1 of
               (status, voltage', w2) \<Rightarrow>
                 if status \<noteq> 0 then
                   Inr (- 1, voltage_uv, eprintf [ErrGetVoltageFailed status] w2)
                 else Inr (0, vo_value_uv voltage', w2)))"

section \<open>The report\<close>

text \<open>The lines \<^verbatim>\<open>main\<close> prints for one device after each reader has returned.\<close>

definition voltage_lines :: "int \<Rightarrow> uint32_t \<Rightarrow> out_line list" where
  "voltage_lines rc voltage_uv =
     (if rc = 0 then [CoreVoltage voltage_uv] else [CoreVoltageNotAvailable])"

definition thermal_lines :: "int \<Rightarrow> int32_t \<Rightarrow> int32_t \<Rightarrow> out_line list" where
  "thermal_lines rc hotspot vram =
     (if rc = 0 then
        [if 0 \<le>s hotspot then HotspotTemperature hotspot else HotspotNotAvailable,
         if 0 \<le>s vram then MemoryTemperature vram else MemoryNotAvailable]
      else [HotspotErrorReading, MemoryErrorReading])"

text \<open>
  The body of the loop over the devices, for index \<open>i\<close>. \<^verbatim>\<open>handles\<close> has
  \<open>NVAPI_MAX_PHYSICAL_GPUS\<close> entries.
\<close>

definition report_gpu ::
  "'d env \<Rightarrow> (nat \<Rightarrow> NvPhysicalGpuHandle) \<Rightarrow> nat \<Rightarrow> 'd world \<Rightarrow> fault + 'd world" where
  "report_gpu env handles i w =
     (let w1 = printf [DashRule, GpuHeader (word_of_nat i), DashRule] w in
      if \<not> i < NVAPI_MAX_PHYSICAL_GPUS then Inl OutOfBounds
      else
        (let handle = handles i in
         case calculate_thermals_mask env handle w1 of
           Inl f \<Rightarrow> Inl f
         | Inr (mask_v, w2) \<Rightarrow>
             (case get_voltage env handle 0 (printf [ThermalsMask mask_v, Blank] w2) of
                Inl f \<Rightarrow> Inl f
              | Inr (rc_v, voltage_uv, w3) \<Rightarrow>
                  (case get_thermals env handle mask_v 0 0
                          (printf (voltage_lines rc_v voltage_uv) w3) of
                     Inl f \<Rightarrow> Inl f
                   | Inr (rc_t, hotspot, vram, w4) \<Rightarrow>
                       Inr (printf (thermal_lines rc_t hotspot vram @ [Blank]) w4)))))"

text \<open>\<^verbatim>\<open>for (uint32_t i = 0; i < gpu_count; i++)\<close>, entered at \<open>i\<close>.\<close>

function report_gpus ::
  "'d env \<Rightarrow> (nat \<Rightarrow> NvPhysicalGpuHandle) \<Rightarrow> nat \<Rightarrow> nat \<Rightarrow> 'd world \<Rightarrow> fault + 'd world" where
  "report_gpus env handles gpu_count i w =
     (if i < gpu_count then
        (case report_gpu env handles i w of
           Inl f \<Rightarrow> Inl f
         | Inr w' \<Rightarrow> report_gpus env handles gpu_count (i + 1) w')
      else Inr w)"
  by pat_completeness auto
termination
  by (relation "measure (\<lambda>(env, handles, gpu_count, i, w). gpu_count - i)") auto

text \<open>
  \<^verbatim>\<open>main\<close>, run in a world \<open>w\<close>; \<open>handles0\<close> is the content of the local array before
  the enumeration writes it. The result is the exit code and the final world.
\<close>

definition main ::
  "'d env \<Rightarrow> (nat \<Rightarrow> NvPhysicalGpuHandle) \<Rightarrow> 'd world \<Rightarrow> fault + (int \<times> 'd world)" where
  "main env handles0 w =
     (case load_nvapi env (printf [Rule, Title, Subtitle, Rule, Blank] w) of
        Inl f \<Rightarrow> Inl f
      | Inr (rc_load, w1) \<Rightarrow>
          if rc_load \<noteq> 0 then Inr (1, w1)
          else
            (case init_nvapi env w1 of
               Inl f \<Rightarrow> Inl f
             | Inr (rc_init, w2) \<Rightarrow>
                 if rc_init \<noteq> 0 then
                   (case dlclose (nvapi_lib w2) w2 of
                      Inl f \<Rightarrow> Inl f
                    | Inr w3 \<Rightarrow> Inr (1, w3))
                 else
                   (case enum_physical_gpus env handles0 0 w2 of
                      Inl f \<Rightarrow> Inl f
                    | Inr (rc_enum, handles, gpu_count, w3) \<Rightarrow>
                        if rc_enum \<noteq> 0 then
                          (case unload_nvapi env w3 of
                             Inl f \<Rightarrow> Inl f
                           | Inr w4 \<Rightarrow> Inr (1, w4))
                        else
                          (case report_gpus env handles (unat gpu_count) 0
                                  (printf [FoundGpus gpu_count, Blank] w3) of
                             Inl f \<Rightarrow> Inl f
                           | Inr w4 \<Rightarrow>
                               (case unload_nvapi env w4 of
                                  Inl f \<Rightarrow> Inl f
                                | Inr w5 \<Rightarrow> Inr (0, printf [Done] w5))))))"

section \<open>Notions used in the statements\<close>

text \<open>
  The resolver may be called when \<^verbatim>\<open>load_nvapi\<close> has set the query interface and the
  module is still mapped.
\<close>

definition usable :: "'d world \<Rightarrow> bool" where
  "usable w = (nvapi_QueryInterface w \<noteq> None \<and> 0 < mapped w)"

text \<open>The two globals and the mapping count are the same in both worlds.\<close>

definition same_session :: "'d world \<Rightarrow> 'd world \<Rightarrow> bool" where
  "same_session w w' =
     (nvapi_lib w' = nvapi_lib w \<and> nvapi_QueryInterface w' = nvapi_QueryInterface w \<and>
      mapped w' = mapped w)"

text \<open>A thermal call on a device, from the structure passed, the status and the structure left.\<close>

definition thermal_event ::
  "NvPhysicalGpuHandle \<Rightarrow> NvApiThermals \<times> NvAPI_Status \<times> NvApiThermals \<Rightarrow> event" where
  "thermal_event h c = (case c of (t, st, t') \<Rightarrow> CallThermals h t st t')"

text \<open>A structure call carries the version stamp of its structure.\<close>

fun stamped :: "event \<Rightarrow> bool" where
  "stamped (CallThermals h t st t') = (th_version t = thermals_stamp)"
| "stamped (CallVoltage h v st v') = (vo_version v = voltage_stamp)"
| "stamped _ = True"

text \<open>
  In a sequence of thermal calls, the first passes the version \<open>v\<close> and every later one
  passes the version field as the call before it left it.
\<close>

fun versions_follow ::
  "uint32_t \<Rightarrow> (NvApiThermals \<times> NvAPI_Status \<times> NvApiThermals) list \<Rightarrow> bool" where
  "versions_follow v [] = True"
| "versions_follow v (c # cs) =
     (th_version (fst c) = v \<and> versions_follow (th_version (snd (snd c))) cs)"

text \<open>
  The quotient \<^verbatim>\<open>raw / 256\<close> of a raw sensor value, as an integer; C's division truncates
  towards zero.
\<close>

definition raw_quotient :: "int32_t \<Rightarrow> int" where
  "raw_quotient raw = sint raw sdiv 256"

text \<open>
  The calls the spec describes for \<^verbatim>\<open>unload()\<close>: resolve the unload entry and invoke it if a
  query interface was obtained, then release the module if one is loaded.
\<close>

definition spec_unload_calls :: "'d env \<Rightarrow> 'd world \<Rightarrow> event list" where
  "spec_unload_calls env w =
     (if nvapi_QueryInterface w = None then []
      else
        (case query_interface env QUERY_NVAPI_UNLOAD (driver w) of
           (unload, d') \<Rightarrow>
             QueryInterface QUERY_NVAPI_UNLOAD unload #
             (if unload then [CallUnload (fst (nv_unload env d'))] else []))) @
     (if nvapi_lib w = None then [] else [DlClose])"

text \<open>Two calls of \<^verbatim>\<open>unload_nvapi\<close> in a row, and one after \<^verbatim>\<open>load_nvapi\<close> whatever it returned.\<close>

definition unload_twice :: "'d env \<Rightarrow> 'd world \<Rightarrow> fault + 'd world" where
  "unload_twice env w =
     (case unload_nvapi env w of Inl f \<Rightarrow> Inl f | Inr w' \<Rightarrow> unload_nvapi env w')"

definition load_then_unload :: "'d env \<Rightarrow> 'd world \<Rightarrow> fault + 'd world" where
  "load_then_unload env w =
     (case load_nvapi env w of Inl f \<Rightarrow> Inl f | Inr (rc, w') \<Rightarrow> unload_nvapi env w')"

text \<open>
  The lines of the report of device \<open>i\<close>, from its mask, voltage lines and temperature
  lines, and a list of lines that is such a report.
\<close>

definition device_block ::
  "nat \<Rightarrow> int32_t \<Rightarrow> out_line list \<Rightarrow> out_line list \<Rightarrow> out_line list" where
  "device_block i m v_lines t_lines =
     [DashRule, GpuHeader (word_of_nat i), DashRule, ThermalsMask m, Blank] @ v_lines @ t_lines @
     [Blank]"

text \<open>The mask passed and the status returned, for a thermal call.\<close>

fun mask_and_status :: "event \<Rightarrow> (uint32_t \<times> NvAPI_Status) option" where
  "mask_and_status (CallThermals h t st t') = Some (th_mask t, st)"
| "mask_and_status _ = None"


definition is_device_block :: "nat \<Rightarrow> out_line list \<Rightarrow> bool" where
  "is_device_block i ls =
     (\<exists>m rc_v v rc_t a b.
        ls = device_block i m (voltage_lines rc_v v) (thermal_lines rc_t a b))"

section \<open>What a run returned\<close>

text \<open>
  The value, the calls and the standard output of a run that returned; \<open>None\<close> or the empty
  list for a run that did not.
\<close>

definition mask_of :: "fault + (int32_t \<times> 'd world) \<Rightarrow> int32_t option" where
  "mask_of r = (case r of Inl f \<Rightarrow> None | Inr (m, w) \<Rightarrow> Some m)"

definition temps_of ::
  "fault + (int \<times> int32_t \<times> int32_t \<times> 'd world) \<Rightarrow> (int \<times> int32_t \<times> int32_t) option" where
  "temps_of r = (case r of Inl f \<Rightarrow> None | Inr (rc, a, b, w) \<Rightarrow> Some (rc, a, b))"

definition voltage_of ::
  "fault + (int \<times> uint32_t \<times> 'd world) \<Rightarrow> (int \<times> uint32_t) option" where
  "voltage_of r = (case r of Inl f \<Rightarrow> None | Inr (rc, v, w) \<Rightarrow> Some (rc, v))"

definition exit_code_of :: "fault + (int \<times> 'd world) \<Rightarrow> int option" where
  "exit_code_of r = (case r of Inl f \<Rightarrow> None | Inr (code, w) \<Rightarrow> Some code)"

definition run_trace :: "fault + ('a \<times> 'd world) \<Rightarrow> event list" where
  "run_trace r = (case r of Inl f \<Rightarrow> [] | Inr (x, w) \<Rightarrow> trace w)"

definition stdout_of :: "fault + ('a \<times> 'd world) \<Rightarrow> out_line list" where
  "stdout_of r = (case r of Inl f \<Rightarrow> [] | Inr (x, w) \<Rightarrow> out w)"

section \<open>Simulated drivers\<close>

text \<open>
  A driver without state whose module loads, which resolves every ID and whose session
  entries succeed; it enumerates \<open>n\<close> devices with the handles 0, 1, ... and answers the two
  structure calls by \<open>th\<close> and \<open>vo\<close>.
\<close>

definition sim_env ::
  "(NvPhysicalGpuHandle \<Rightarrow> NvApiThermals \<Rightarrow> NvAPI_Status \<times> NvApiThermals) \<Rightarrow>
   (NvPhysicalGpuHandle \<Rightarrow> NvApiVoltage \<Rightarrow> NvAPI_Status \<times> NvApiVoltage) \<Rightarrow>
   uint32_t \<Rightarrow> unit env" where
  "sim_env th vo n =
     \<lparr>dlopen_result = Some 1, dlsym_result = Some 1,
      query_interface = (\<lambda>ident d. (True, d)),
      nv_initialize = (\<lambda>d. (0, d)),
      nv_unload = (\<lambda>d. (0, d)),
      nv_enum = (\<lambda>d. (0, (\<lambda>i. i), n, d)),
      nv_thermals = (\<lambda>h t d. (fst (th h t), snd (th h t), d)),
      nv_voltage = (\<lambda>h v d. (fst (vo h v), snd (vo h v), d))\<rparr>"

text \<open>
  Thermal entries that write nothing: one that rejects every mask above \<open>1 << n\<close>, one
  that accepts every call, one that rejects every call.
\<close>

definition fails_above ::
  "nat \<Rightarrow> NvPhysicalGpuHandle \<Rightarrow> NvApiThermals \<Rightarrow> NvAPI_Status \<times> NvApiThermals" where
  "fails_above n h t = (if push_bit n 1 < th_mask t then (1, t) else (0, t))"

definition never_fails ::
  "NvPhysicalGpuHandle \<Rightarrow> NvApiThermals \<Rightarrow> NvAPI_Status \<times> NvApiThermals" where
  "never_fails h t = (0, t)"

definition always_fails ::
  "NvPhysicalGpuHandle \<Rightarrow> NvApiThermals \<Rightarrow> NvAPI_Status \<times> NvApiThermals" where
  "always_fails h t = (1, t)"

text \<open>
  Thermal entries that write: one that succeeds and puts \<open>hot\<close> and \<open>mem\<close> into the slots 9
  and 15; one that does so with 25 and 50 degrees on device 0 and rejects every call on
  the other devices, and one that rejects every call on device 0 and does so on the
  other devices; one that checks the stamp and on success writes the version it
  implements, 1, into the version field.
\<close>

definition reads ::
  "int32_t \<Rightarrow> int32_t \<Rightarrow> NvPhysicalGpuHandle \<Rightarrow> NvApiThermals \<Rightarrow> NvAPI_Status \<times> NvApiThermals" where
  "reads hot mem h t = (0, t\<lparr>th_values := (th_values t)(9 := hot, 15 := mem)\<rparr>)"

definition second_fails ::
  "NvPhysicalGpuHandle \<Rightarrow> NvApiThermals \<Rightarrow> NvAPI_Status \<times> NvApiThermals" where
  "second_fails h t = (if h = 0 then reads 6400 12800 h t else always_fails h t)"


definition downgrades ::
  "NvPhysicalGpuHandle \<Rightarrow> NvApiThermals \<Rightarrow> NvAPI_Status \<times> NvApiThermals" where
  "downgrades h t =
     (if th_version t = thermals_stamp then (0, t\<lparr>th_version := 1\<rparr>) else (1, t))"

text \<open>
  A thermal entry that rejects the mask \<open>1 << 2\<close> and, when it rejects, clears the mask
  field of the structure.
\<close>

definition clears_mask ::
  "NvPhysicalGpuHandle \<Rightarrow> NvApiThermals \<Rightarrow> NvAPI_Status \<times> NvApiThermals" where
  "clears_mask h t = (if th_mask t = 4 then (1, t\<lparr>th_mask := 0\<rparr>) else (0, t))"

text \<open>
  A voltage entry that succeeds and writes \<open>uv\<close> into \<^verbatim>\<open>value_uv\<close>, and one that rejects
  every call.
\<close>

definition volts ::
  "uint32_t \<Rightarrow> NvPhysicalGpuHandle \<Rightarrow> NvApiVoltage \<Rightarrow> NvAPI_Status \<times> NvApiVoltage" where
  "volts uv h v = (0, v\<lparr>vo_value_uv := uv\<rparr>)"


text \<open>
  Variants of a driver: one that does not know the ID \<open>ident\<close>, a machine without the
  module, a module without the symbol \<^verbatim>\<open>nvapi_QueryInterface\<close>, a driver that rejects the
  initialisation and one that rejects the enumeration.
\<close>

definition without :: "uint32_t \<Rightarrow> unit env \<Rightarrow> unit env" where
  "without ident env = env\<lparr>query_interface := (\<lambda>i d. (i \<noteq> ident, d))\<rparr>"

definition no_module :: "unit env \<Rightarrow> unit env" where
  "no_module env = env\<lparr>dlopen_result := None\<rparr>"

definition no_symbol :: "unit env \<Rightarrow> unit env" where
  "no_symbol env = env\<lparr>dlsym_result := None\<rparr>"

definition failing_init :: "unit env \<Rightarrow> unit env" where
  "failing_init env = env\<lparr>nv_initialize := (\<lambda>d. (1, d))\<rparr>"

definition failing_enum :: "unit env \<Rightarrow> unit env" where
  "failing_enum env = env\<lparr>nv_enum := (\<lambda>d. (1, (\<lambda>i. 0), 0, d))\<rparr>"

text \<open>
  The process after a successful \<^verbatim>\<open>load_nvapi\<close> with nothing logged yet, and the local
  array \<^verbatim>\<open>handles\<close> of \<^verbatim>\<open>main\<close> before the enumeration writes it.
\<close>

definition ready_world :: "unit world" where
  "ready_world =
     \<lparr>nvapi_lib = Some 1, nvapi_QueryInterface = Some 1, mapped = 1, driver = (),
      trace = [], out = [], err = []\<rparr>"

definition no_handles :: "nat \<Rightarrow> NvPhysicalGpuHandle" where
  "no_handles i = 0"

section \<open>Frame lemmas\<close>

declare probe_bits.simps [simp del]

declare report_gpus.simps [simp del]

lemmas world_ops = log_event_def printf_def eprintf_def

lemmas sim_simps = sim_env_def fails_above_def never_fails_def always_fails_def volts_def
  ready_world_def

lemma get_nvapi_function_usable:
  assumes "usable w"
  shows "\<exists>w'. get_nvapi_function env ident w =
            Inr (fst (query_interface env ident (driver w)), w') \<and>
          same_session w w' \<and> out w' = out w \<and>
          driver w' = snd (query_interface env ident (driver w)) \<and>
          trace w' = trace w @ [QueryInterface ident (fst (query_interface env ident (driver w)))] \<and>
          err w' = err w @ (if fst (query_interface env ident (driver w)) then [] else [ErrNoFunction ident])"
  using assms
  by (auto simp: get_nvapi_function_def usable_def same_session_def world_ops
           split: option.splits prod.splits)

lemma call_thermals_frame:
  assumes "call_thermals env h t w = (st, t', w')"
  shows "same_session w w' \<and> out w' = out w \<and> err w' = err w \<and>
         trace w' = trace w @ [CallThermals h t st t'] \<and>
         nv_thermals env h t (driver w) = (st, t', driver w')"
  using assms
  by (auto simp: call_thermals_def same_session_def world_ops split: prod.splits)

lemma call_voltage_frame:
  assumes "call_voltage env h v w = (st, v', w')"
  shows "same_session w w' \<and> out w' = out w \<and> err w' = err w \<and>
         trace w' = trace w @ [CallVoltage h v st v'] \<and>
         nv_voltage env h v (driver w) = (st, v', driver w')"
  using assms
  by (auto simp: call_voltage_def same_session_def world_ops split: prod.splits)

lemma same_session_refl: "same_session w w"
  by (simp add: same_session_def)

lemma same_session_trans: "same_session w w1 \<Longrightarrow> same_session w1 w2 \<Longrightarrow> same_session w w2"
  by (simp add: same_session_def)

lemma same_session_usable: "same_session w w' \<Longrightarrow> usable w \<Longrightarrow> usable w'"
  by (simp add: same_session_def usable_def)

lemma usable_printf [simp]: "usable (printf ls w) = usable w"
  by (simp add: usable_def printf_def)

lemma same_session_printf [simp]: "same_session w (printf ls w') = same_session w w'"
  by (simp add: same_session_def printf_def)

lemma out_printf [simp]: "out (printf ls w) = out w @ ls"
  by (simp add: printf_def)

lemma probe_bits_frame:
  "probe_bits env h b t w = (m, w') \<Longrightarrow> same_session w w' \<and> out w' = out w \<and> err w' = err w"
proof (induction env h b t w rule: probe_bits.induct)
  case (1 env h b t w)
  show ?case
  proof (cases "b < 32")
    case False
    with "1.prems" show ?thesis by (simp add: probe_bits.simps same_session_refl)
  next
    case True
    obtain st t1 w1 where c: "call_thermals env h (t\<lparr>th_mask := push_bit b 1\<rparr>) w = (st, t1, w1)"
      by (cases "call_thermals env h (t\<lparr>th_mask := push_bit b 1\<rparr>) w") auto
    note f = call_thermals_frame[OF c]
    show ?thesis
    proof (cases "st = 0")
      case True
      with \<open>b < 32\<close> c "1.prems" have "probe_bits env h (b + 1) t1 w1 = (m, w')"
        by (simp add: probe_bits.simps[of env h b])
      from "1.IH"[OF \<open>b < 32\<close> c[symmetric] refl _ this] True
      have "same_session w1 w' \<and> out w' = out w1 \<and> err w' = err w1" by simp
      with f show ?thesis by (auto intro: same_session_trans)
    next
      case False
      with \<open>b < 32\<close> c "1.prems" have "w' = w1"
        by (simp add: probe_bits.simps[of env h b])
      with f show ?thesis by simp
    qed
  qed
qed

section \<open>Decoding\<close>

lemma sdiv_256_nonneg: "0 \<le> (k::int) \<Longrightarrow> k sdiv 256 = k div 256"
  by (simp add: signed_divide_int_def sgn_if)

lemma sdiv_256_neg: "(k::int) < 0 \<Longrightarrow> k sdiv 256 = - ((- k) div 256)"
  by (simp add: signed_divide_int_def sgn_if)

lemma sdiv_256_bounds:
  assumes "- (2^31) \<le> (k::int)" "k < 2^31"
  shows "- (2^31) \<le> k sdiv 256 \<and> k sdiv 256 < 2^31"
proof (cases "0 \<le> k")
  case True
  then show ?thesis using assms by (simp add: sdiv_256_nonneg) linarith
next
  case False
  then show ?thesis using assms by (simp add: sdiv_256_neg) linarith
qed

lemma sint_c_div_256: "sint (c_div raw 256) = sint raw sdiv 256"
proof -
  have "- (2^31) \<le> sint raw" "sint raw < 2^31"
    using sint_ge[of raw] sint_lt[of raw] by simp_all
  then have "- (2^31) \<le> sint raw sdiv 256 \<and> sint raw sdiv 256 < 2^31"
    by (rule sdiv_256_bounds)
  then have "signed_take_bit 31 (sint raw sdiv 256) = sint raw sdiv 256"
    by (intro signed_take_bit_int_eq_self) simp_all
  then show ?thesis
    unfolding c_div_def by (simp add: sint_sbintrunc')
qed

lemma sdiv_256_in_range:
  "(0 < (k::int) sdiv 256 \<and> k sdiv 256 < 255) = (256 \<le> k \<and> k < 65280)"
proof (cases "0 \<le> k")
  case True
  then show ?thesis by (simp add: sdiv_256_nonneg) linarith
next
  case False
  then have "k sdiv 256 \<le> 0" by (simp add: sdiv_256_neg)
  with False show ?thesis by simp
qed

lemma decode_temperature_sdiv:
  "decode_temperature raw =
     (if 0 < sint raw sdiv 256 \<and> sint raw sdiv 256 < 255
      then word_of_int (sint raw sdiv 256) else - 1)"
  unfolding decode_temperature_def Let_def word_sless_alt sint_c_div_256
  by (simp add: c_div_def)

lemma sint_decode_temperature:
  "sint (decode_temperature raw) =
     (if 0 < sint raw sdiv 256 \<and> sint raw sdiv 256 < 255 then sint raw sdiv 256 else - 1)"
  unfolding decode_temperature_def Let_def word_sless_alt sint_c_div_256
  by (simp add: sint_c_div_256)

lemma thermal_line_decode:
  "(0 \<le>s decode_temperature raw) = (0 < sint raw sdiv 256 \<and> sint raw sdiv 256 < 255)"
  by (simp add: word_sle_eq sint_decode_temperature)


section \<open>The calls of the prober\<close>

lemma probe_bits_trace:
  "probe_bits env h b t w = (m, w') \<Longrightarrow> b \<le> 32 \<Longrightarrow>
   \<exists>calls. trace w' = trace w @ map (thermal_event h) calls \<and>
     length calls \<le> 32 - b \<and>
     map (\<lambda>c. th_mask (fst c)) calls = map (\<lambda>k. push_bit k 1) [b..<b + length calls] \<and>
     (\<forall>c \<in> set (butlast calls). fst (snd c) = 0) \<and>
     (if calls \<noteq> [] \<and> fst (snd (last calls)) \<noteq> 0
      then m = th_mask (snd (snd (last calls))) - 1
      else length calls = 32 - b \<and> m = 0xFFFFFFFF)"
proof (induction env h b t w rule: probe_bits.induct)
  case (1 env h b t w)
  show ?case
  proof (cases "b < 32")
    case False
    with "1.prems" have "w' = w" "m = 0xFFFFFFFF" "b = 32"
      by (simp_all add: probe_bits.simps)
    then show ?thesis by (intro exI[of _ "[]"]) simp
  next
    case True
    let ?t0 = "t\<lparr>th_mask := push_bit b 1\<rparr>"
    obtain st t1 w1 where c: "call_thermals env h ?t0 w = (st, t1, w1)"
      by (cases "call_thermals env h ?t0 w") auto
    from call_thermals_frame[OF c]
    have tr1: "trace w1 = trace w @ [CallThermals h ?t0 st t1]" by simp
    show ?thesis
    proof (cases "st = 0")
      case False
      with True c "1.prems" have r: "w' = w1" "m = th_mask t1 - 1"
        by (simp_all add: probe_bits.simps[of env h b])
      show ?thesis
        using r tr1 True False
        by (intro exI[of _ "[(?t0, st, t1)]"]) (simp add: thermal_event_def)
    next
      case st0: True
      with True c "1.prems" have rec: "probe_bits env h (b + 1) t1 w1 = (m, w')"
        by (simp add: probe_bits.simps[of env h b])
      from True have "b + 1 \<le> 32" by simp
      from "1.IH"[OF True c[symmetric] refl _ rec this] st0
      obtain calls where
        tr: "trace w' = trace w1 @ map (thermal_event h) calls" and
        len: "length calls \<le> 32 - (b + 1)" and
        masks: "map (\<lambda>c. th_mask (fst c)) calls = map (\<lambda>k. push_bit k 1) [b + 1..<b + 1 + length calls]" and
        succ: "\<forall>c \<in> set (butlast calls). fst (snd c) = 0" and
        res: "if calls \<noteq> [] \<and> fst (snd (last calls)) \<noteq> 0
              then m = th_mask (snd (snd (last calls))) - 1
              else length calls = 32 - (b + 1) \<and> m = 0xFFFFFFFF"
        by auto
      let ?calls = "(?t0, st, t1) # calls"
      have a: "trace w' = trace w @ map (thermal_event h) ?calls"
        using tr tr1 by (simp add: thermal_event_def)
      have b: "length ?calls \<le> 32 - b" using len True by simp
      have "[b..<b + length ?calls] = b # [b + 1..<b + 1 + length calls]"
        by (subst upt_rec) simp
      then have c': "map (\<lambda>c. th_mask (fst c)) ?calls = map (\<lambda>k. push_bit k 1) [b..<b + length ?calls]"
        using masks by simp
      have d: "\<forall>c \<in> set (butlast ?calls). fst (snd c) = 0"
        using succ st0 by auto
      have e: "if ?calls \<noteq> [] \<and> fst (snd (last ?calls)) \<noteq> 0
               then m = th_mask (snd (snd (last ?calls))) - 1
               else length ?calls = 32 - b \<and> m = 0xFFFFFFFF"
        using res st0 True by (auto split: if_splits)
      from a b c' d e show ?thesis by blast
    qed
  qed
qed

lemma probe_bits_versions:
  "probe_bits env h b t w = (m, w') \<Longrightarrow>
   \<exists>calls. trace w' = trace w @ map (thermal_event h) calls \<and>
           versions_follow (th_version t) calls"
proof (induction env h b t w rule: probe_bits.induct)
  case (1 env h b t w)
  show ?case
  proof (cases "b < 32")
    case False
    with "1.prems" have "w' = w" by (simp add: probe_bits.simps)
    then show ?thesis by (intro exI[of _ "[]"]) simp
  next
    case True
    let ?t0 = "t\<lparr>th_mask := push_bit b 1\<rparr>"
    obtain st t1 w1 where c: "call_thermals env h ?t0 w = (st, t1, w1)"
      by (cases "call_thermals env h ?t0 w") auto
    from call_thermals_frame[OF c]
    have tr1: "trace w1 = trace w @ [CallThermals h ?t0 st t1]" by simp
    show ?thesis
    proof (cases "st = 0")
      case False
      with True c "1.prems" have "w' = w1"
        by (simp add: probe_bits.simps[of env h b])
      with tr1 show ?thesis
        by (intro exI[of _ "[(?t0, st, t1)]"]) (simp add: thermal_event_def)
    next
      case st0: True
      with True c "1.prems" have rec: "probe_bits env h (b + 1) t1 w1 = (m, w')"
        by (simp add: probe_bits.simps[of env h b])
      from "1.IH"[OF True c[symmetric] refl _ rec] st0
      obtain calls where tr: "trace w' = trace w1 @ map (thermal_event h) calls"
        and vf: "versions_follow (th_version t1) calls"
        by auto
      show ?thesis
        using tr tr1 vf
        by (intro exI[of _ "(?t0, st, t1) # calls"]) (simp add: thermal_event_def)
    qed
  qed
qed

lemma versions_follow_kept:
  "versions_follow v calls \<Longrightarrow>
   \<forall>c \<in> set calls. th_version (snd (snd c)) = th_version (fst c) \<Longrightarrow>
   \<forall>c \<in> set calls. th_version (fst c) = v"
  by (induction calls arbitrary: v) auto

lemma stamped_thermal_event:
  "list_all stamped (map (thermal_event h) calls) =
     (\<forall>c \<in> set calls. th_version (fst c) = thermals_stamp)"
  by (induction calls) (auto simp: thermal_event_def)

lemma thermals_stamp_value: "thermals_stamp = 0x200A8"
  by (simp add: thermals_stamp_def sizeof_NvApiThermals_def)

lemma voltage_stamp_value: "voltage_stamp = 0x1004C"
  by (simp add: voltage_stamp_def sizeof_NvApiVoltage_def)

lemma calculate_thermals_mask_usable:
  assumes u: "usable w"
  shows "\<exists>m w'. calculate_thermals_mask env h w = Inr (m, w') \<and> same_session w w' \<and>
           out w' = out w"
proof -
  from get_nvapi_function_usable[OF u, of env QUERY_NVAPI_THERMALS]
  obtain r w1 where g: "get_nvapi_function env QUERY_NVAPI_THERMALS w = Inr (r, w1)"
    and s1: "same_session w w1" and o1: "out w1 = out w"
    by blast
  show ?thesis
  proof (cases r)
    case False
    with g s1 o1 show ?thesis by (simp add: calculate_thermals_mask_def)
  next
    case True
    let ?t0 = "zero_NvApiThermals\<lparr>th_version := thermals_stamp, th_mask := 1\<rparr>"
    obtain st t1 w2 where c: "call_thermals env h ?t0 w1 = (st, t1, w2)"
      by (cases "call_thermals env h ?t0 w1") auto
    from call_thermals_frame[OF c] s1 o1
    have s2: "same_session w w2" and o2: "out w2 = out w"
      by (auto intro: same_session_trans)
    show ?thesis
    proof (cases "st = 0")
      case False
      with True g c s2 o2 show ?thesis
        by (simp add: calculate_thermals_mask_def eprintf_def same_session_def)
    next
      case st0: True
      obtain m w' where p: "probe_bits env h 0 t1 w2 = (m, w')"
        by (cases "probe_bits env h 0 t1 w2") auto
      from probe_bits_frame[OF p] s2 o2
      have "same_session w w'" "out w' = out w"
        by (auto intro: same_session_trans)
      with True g c p st0 show ?thesis
        by (simp add: calculate_thermals_mask_def)
    qed
  qed
qed

lemma calculate_thermals_mask_versions:
  assumes u: "usable w"
  shows "\<exists>m w' r calls. calculate_thermals_mask env h w = Inr (m, w') \<and>
           trace w' = trace w @ QueryInterface QUERY_NVAPI_THERMALS r # map (thermal_event h) calls \<and>
           versions_follow thermals_stamp calls"
proof -
  from get_nvapi_function_usable[OF u, of env QUERY_NVAPI_THERMALS]
  obtain r w1 where g: "get_nvapi_function env QUERY_NVAPI_THERMALS w = Inr (r, w1)"
    and t1: "trace w1 = trace w @ [QueryInterface QUERY_NVAPI_THERMALS r]"
    by blast
  let ?t0 = "zero_NvApiThermals\<lparr>th_version := thermals_stamp, th_mask := 1\<rparr>"
  obtain st tt w2 where c: "call_thermals env h ?t0 w1 = (st, tt, w2)"
    by (cases "call_thermals env h ?t0 w1") auto
  from call_thermals_frame[OF c]
  have t2: "trace w2 = trace w1 @ [CallThermals h ?t0 st tt]" by simp
  show ?thesis
  proof (cases r)
    case False
    with g t1 show ?thesis
      by (intro exI[of _ 1] exI[of _ w1] exI[of _ r] exI[of _ "[]"])
         (simp add: calculate_thermals_mask_def)
  next
    case True
    show ?thesis
    proof (cases "st = 0")
      case False
      with True g c t1 t2 show ?thesis
        by (intro exI[of _ 1] exI[of _ "eprintf [WarnInitialThermals] w2"] exI[of _ r]
                  exI[of _ "[(?t0, st, tt)]"])
           (simp add: calculate_thermals_mask_def eprintf_def thermal_event_def)
    next
      case st0: True
      obtain m w' where p: "probe_bits env h 0 tt w2 = (m, w')"
        by (cases "probe_bits env h 0 tt w2") auto
      from probe_bits_versions[OF p]
      obtain calls where tr: "trace w' = trace w2 @ map (thermal_event h) calls"
        and vf: "versions_follow (th_version tt) calls" by blast
      show ?thesis
        using True st0 g c p t1 t2 tr vf
        by (intro exI[of _ m] exI[of _ w'] exI[of _ r] exI[of _ "(?t0, st, tt) # calls"])
           (simp add: calculate_thermals_mask_def thermal_event_def)
    qed
  qed
qed

lemma calculate_thermals_mask_no_interface:
  assumes u: "usable w" and n: "\<not> fst (query_interface env QUERY_NVAPI_THERMALS (driver w))"
  shows "\<exists>w'. calculate_thermals_mask env h w = Inr (1, w')"
proof -
  from get_nvapi_function_usable[OF u, of env QUERY_NVAPI_THERMALS] n
  obtain w1 where "get_nvapi_function env QUERY_NVAPI_THERMALS w = Inr (False, w1)"
    by auto
  then show ?thesis by (simp add: calculate_thermals_mask_def)
qed


section \<open>The readers\<close>

lemma get_thermals_success:
  assumes "get_thermals env h m a0 b0 w = Inr (0, a, b, w')"
  shows "\<exists>t'. last (trace w') =
            CallThermals h (zero_NvApiThermals\<lparr>th_version := thermals_stamp, th_mask := m\<rparr>) 0 t' \<and>
          a = decode_temperature (th_values t' 9) \<and> b = decode_temperature (th_values t' 15)"
  using assms
  by (auto simp: get_thermals_def call_thermals_def world_ops
           split: sum.splits prod.splits if_splits)

lemma get_voltage_success:
  assumes "get_voltage env h v0 w = Inr (0, v, w')"
  shows "\<exists>v'. last (trace w') =
            CallVoltage h (zero_NvApiVoltage\<lparr>vo_version := voltage_stamp\<rparr>) 0 v' \<and>
          v = vo_value_uv v'"
  using assms
  by (auto simp: get_voltage_def call_voltage_def world_ops
           split: sum.splits prod.splits if_splits)

lemma get_voltage_usable:
  assumes u: "usable w"
  shows "\<exists>rc v w'. get_voltage env h v0 w = Inr (rc, v, w') \<and> same_session w w' \<and>
           out w' = out w \<and> (rc = 0 \<or> rc = - 1)"
proof -
  from get_nvapi_function_usable[OF u, of env QUERY_NVAPI_VOLTAGE]
  obtain r w1 where g: "get_nvapi_function env QUERY_NVAPI_VOLTAGE w = Inr (r, w1)"
    and s1: "same_session w w1" and o1: "out w1 = out w"
    by blast
  let ?v = "zero_NvApiVoltage\<lparr>vo_version := voltage_stamp\<rparr>"
  obtain st v1 w2 where c: "call_voltage env h ?v w1 = (st, v1, w2)"
    by (cases "call_voltage env h ?v w1") auto
  from call_voltage_frame[OF c] s1 o1
  have s2: "same_session w w2" and o2: "out w2 = out w"
    by (auto intro: same_session_trans)
  show ?thesis
    using g c s1 o1 s2 o2
    by (cases r; cases "st = 0") (auto simp: get_voltage_def eprintf_def same_session_def)
qed

lemma get_thermals_usable:
  assumes u: "usable w"
  shows "\<exists>rc a b w'. get_thermals env h m a0 b0 w = Inr (rc, a, b, w') \<and> same_session w w' \<and>
           out w' = out w \<and> (rc = 0 \<or> rc = - 1)"
proof -
  from get_nvapi_function_usable[OF u, of env QUERY_NVAPI_THERMALS]
  obtain r w1 where g: "get_nvapi_function env QUERY_NVAPI_THERMALS w = Inr (r, w1)"
    and s1: "same_session w w1" and o1: "out w1 = out w"
    by blast
  let ?t = "zero_NvApiThermals\<lparr>th_version := thermals_stamp, th_mask := m\<rparr>"
  obtain st t1 w2 where c: "call_thermals env h ?t w1 = (st, t1, w2)"
    by (cases "call_thermals env h ?t w1") auto
  from call_thermals_frame[OF c] s1 o1
  have s2: "same_session w w2" and o2: "out w2 = out w"
    by (auto intro: same_session_trans)
  show ?thesis
    using g c s1 o1 s2 o2
    by (cases r; cases "st = 0") (auto simp: get_thermals_def eprintf_def same_session_def)
qed

lemma get_voltage_stamped:
  assumes u: "usable w"
  shows "\<exists>rc v w' evs. get_voltage env h v0 w = Inr (rc, v, w') \<and>
           trace w' = trace w @ evs \<and> list_all stamped evs"
proof -
  from get_nvapi_function_usable[OF u, of env QUERY_NVAPI_VOLTAGE]
  obtain r w1 where g: "get_nvapi_function env QUERY_NVAPI_VOLTAGE w = Inr (r, w1)"
    and t1: "trace w1 = trace w @ [QueryInterface QUERY_NVAPI_VOLTAGE r]"
    by blast
  let ?v = "zero_NvApiVoltage\<lparr>vo_version := voltage_stamp\<rparr>"
  obtain st v1 w2 where c: "call_voltage env h ?v w1 = (st, v1, w2)"
    by (cases "call_voltage env h ?v w1") auto
  from call_voltage_frame[OF c]
  have t2: "trace w2 = trace w1 @ [CallVoltage h ?v st v1]" by simp
  show ?thesis
  proof (cases r)
    case False
    with g t1 show ?thesis by (simp add: get_voltage_def)
  next
    case True
    with g c t1 t2 show ?thesis
      by (cases "st = 0") (simp_all add: get_voltage_def eprintf_def)
  qed
qed

lemma get_thermals_stamped:
  assumes u: "usable w"
  shows "\<exists>rc a b w' evs. get_thermals env h m a0 b0 w = Inr (rc, a, b, w') \<and>
           trace w' = trace w @ evs \<and> list_all stamped evs"
proof -
  from get_nvapi_function_usable[OF u, of env QUERY_NVAPI_THERMALS]
  obtain r w1 where g: "get_nvapi_function env QUERY_NVAPI_THERMALS w = Inr (r, w1)"
    and t1: "trace w1 = trace w @ [QueryInterface QUERY_NVAPI_THERMALS r]"
    by blast
  let ?t = "zero_NvApiThermals\<lparr>th_version := thermals_stamp, th_mask := m\<rparr>"
  obtain st tt w2 where c: "call_thermals env h ?t w1 = (st, tt, w2)"
    by (cases "call_thermals env h ?t w1") auto
  from call_thermals_frame[OF c]
  have t2: "trace w2 = trace w1 @ [CallThermals h ?t st tt]" by simp
  show ?thesis
  proof (cases r)
    case False
    with g t1 show ?thesis by (simp add: get_thermals_def)
  next
    case True
    with g c t1 t2 show ?thesis
      by (cases "st = 0") (simp_all add: get_thermals_def eprintf_def)
  qed
qed

lemma get_voltage_unresolved:
  assumes u: "usable w" and n: "\<not> fst (query_interface env QUERY_NVAPI_VOLTAGE (driver w))"
  shows "\<exists>w'. get_voltage env h v0 w = Inr (- 1, v0, w') \<and> same_session w w' \<and> out w' = out w \<and>
           trace w' = trace w @ [QueryInterface QUERY_NVAPI_VOLTAGE False]"
proof -
  from get_nvapi_function_usable[OF u, of env QUERY_NVAPI_VOLTAGE] n
  obtain w1 where "get_nvapi_function env QUERY_NVAPI_VOLTAGE w = Inr (False, w1)"
    "same_session w w1" "out w1 = out w"
    "trace w1 = trace w @ [QueryInterface QUERY_NVAPI_VOLTAGE False]"
    by auto
  then show ?thesis by (simp add: get_voltage_def)
qed

lemma get_thermals_unresolved:
  assumes u: "usable w" and n: "\<not> fst (query_interface env QUERY_NVAPI_THERMALS (driver w))"
  shows "\<exists>w'. get_thermals env h m a0 b0 w = Inr (- 1, a0, b0, w') \<and> same_session w w' \<and>
           out w' = out w \<and> trace w' = trace w @ [QueryInterface QUERY_NVAPI_THERMALS False]"
proof -
  from get_nvapi_function_usable[OF u, of env QUERY_NVAPI_THERMALS] n
  obtain w1 where "get_nvapi_function env QUERY_NVAPI_THERMALS w = Inr (False, w1)"
    "same_session w w1" "out w1 = out w"
    "trace w1 = trace w @ [QueryInterface QUERY_NVAPI_THERMALS False]"
    by auto
  then show ?thesis by (simp add: get_thermals_def)
qed





section \<open>The session\<close>

lemma load_nvapi_cases:
  "\<exists>rc w'. load_nvapi env w = Inr (rc, w') \<and> out w' = out w \<and>
     (rc = 0 \<and> usable w' \<and> nvapi_lib w' \<noteq> None \<and> mapped w' = mapped w + 1 \<and>
        dlopen_result env \<noteq> None \<and> dlsym_result env \<noteq> None \<and>
        trace w' = trace w @ [DlOpen (dlopen_result env), DlSym (dlsym_result env)] \<or>
      rc = - 1 \<and> mapped w' = mapped w \<and> dlopen_result env = None \<and>
        trace w' = trace w @ [DlOpen None] \<or>
      rc = - 1 \<and> mapped w' = mapped w \<and> dlopen_result env \<noteq> None \<and> dlsym_result env = None \<and>
        trace w' = trace w @ [DlOpen (dlopen_result env), DlSym None, DlClose])"
  by (auto simp: load_nvapi_def dlclose_def world_ops usable_def Let_def split: option.splits)

lemma init_nvapi_usable:
  assumes u: "usable w"
  shows "\<exists>rc w'. init_nvapi env w = Inr (rc, w') \<and> same_session w w' \<and>
           (rc = 0 \<and> out w' = out w @ [InitOk, Blank] \<or> rc = - 1 \<and> out w' = out w)"
proof -
  from get_nvapi_function_usable[OF u, of env QUERY_NVAPI_INITIALIZE]
  obtain r w1 where g: "get_nvapi_function env QUERY_NVAPI_INITIALIZE w = Inr (r, w1)"
    and s1: "same_session w w1" and o1: "out w1 = out w"
    by blast
  show ?thesis
    using g s1 o1
    by (cases r)
       (auto simp: init_nvapi_def same_session_def world_ops Let_def split: prod.splits)
qed


lemma enum_physical_gpus_usable:
  assumes u: "usable w"
  shows "\<exists>rc handles n w'. enum_physical_gpus env handles0 n0 w = Inr (rc, handles, n, w') \<and>
           same_session w w' \<and> (rc = 0 \<or> rc = - 1) \<and> out w' = out w"
proof -
  from get_nvapi_function_usable[OF u, of env QUERY_NVAPI_ENUM_PHYSICAL_GPUS]
  obtain r w1 where g: "get_nvapi_function env QUERY_NVAPI_ENUM_PHYSICAL_GPUS w = Inr (r, w1)"
    and s1: "same_session w w1" and o1: "out w1 = out w"
    by blast
  show ?thesis
    using g s1 o1
    by (cases r)
       (auto simp: enum_physical_gpus_def same_session_def world_ops Let_def split: prod.splits)
qed


lemma dlclose_usable:
  "0 < mapped w \<Longrightarrow> h \<noteq> None \<Longrightarrow>
   \<exists>w'. dlclose h w = Inr w' \<and> trace w' = trace w @ [DlClose] \<and> mapped w' = mapped w - 1 \<and>
     out w' = out w"
  by (auto simp: dlclose_def world_ops split: option.splits)

lemma unload_nvapi_fresh:
  assumes q: "nvapi_QueryInterface w \<noteq> None \<longrightarrow> 0 < mapped w"
  shows "\<exists>w'. unload_nvapi env w = Inr w' \<and>
           trace w' = trace w @ spec_unload_calls env w \<and>
           mapped w' = (if nvapi_lib w = None then mapped w else mapped w - 1) \<and>
           nvapi_lib w' = nvapi_lib w \<and> nvapi_QueryInterface w' = nvapi_QueryInterface w \<and>
           out w' = out w"
  using q
  by (auto simp: unload_nvapi_def spec_unload_calls_def get_nvapi_function_def dlclose_def world_ops
           split: option.splits prod.splits)

lemma unload_nvapi_stale:
  assumes "nvapi_QueryInterface w \<noteq> None" and "mapped w = 0"
  shows "unload_nvapi env w = Inl StaleCall"
  using assms
  by (auto simp: unload_nvapi_def get_nvapi_function_def split: option.splits)

lemma spec_unload_calls_last:
  "nvapi_lib w \<noteq> None \<Longrightarrow> last (tr @ spec_unload_calls env w) = DlClose"
  by (auto simp: spec_unload_calls_def)

section \<open>The device loop and the whole run\<close>

lemma report_gpu_steps:
  assumes u: "usable w" and i: "i < NVAPI_MAX_PHYSICAL_GPUS"
  shows "\<exists>m w2 rc_v v w3 rc_t a b w4.
     calculate_thermals_mask env (handles i)
       (printf [DashRule, GpuHeader (word_of_nat i), DashRule] w) = Inr (m, w2) \<and>
     get_voltage env (handles i) 0 (printf [ThermalsMask m, Blank] w2) = Inr (rc_v, v, w3) \<and>
     get_thermals env (handles i) m 0 0 (printf (voltage_lines rc_v v) w3) = Inr (rc_t, a, b, w4) \<and>
     report_gpu env handles i w = Inr (printf (thermal_lines rc_t a b @ [Blank]) w4) \<and>
     usable w2 \<and> usable w3 \<and> usable w4 \<and> same_session w w4 \<and>
     out w4 = out w @ [DashRule, GpuHeader (word_of_nat i), DashRule, ThermalsMask m, Blank] @
                voltage_lines rc_v v"
proof -
  let ?w1 = "printf [DashRule, GpuHeader (word_of_nat i), DashRule] w"
  let ?h = "handles i"
  have u1: "usable ?w1" using u by simp
  from calculate_thermals_mask_usable[OF u1, of env ?h]
  obtain m w2 where c: "calculate_thermals_mask env ?h ?w1 = Inr (m, w2)"
    and s2: "same_session ?w1 w2" and o2: "out w2 = out ?w1" by blast
  let ?w2 = "printf [ThermalsMask m, Blank] w2"
  have u2': "usable w2" using same_session_usable[OF s2 u1] .
  then have u2: "usable ?w2" by simp
  from get_voltage_usable[OF u2, of env ?h 0]
  obtain rc_v v w3 where gv: "get_voltage env ?h 0 ?w2 = Inr (rc_v, v, w3)"
    and s3: "same_session ?w2 w3" and o3: "out w3 = out ?w2" by blast
  let ?w3 = "printf (voltage_lines rc_v v) w3"
  have u3': "usable w3" using same_session_usable[OF s3 u2] .
  then have u3: "usable ?w3" by simp
  from get_thermals_usable[OF u3, of env ?h m 0 0]
  obtain rc_t a b w4 where gt: "get_thermals env ?h m 0 0 ?w3 = Inr (rc_t, a, b, w4)"
    and s4: "same_session ?w3 w4" and o4: "out w4 = out ?w3" by blast
  have u4: "usable w4" using same_session_usable[OF s4 u3] .
  have r: "report_gpu env handles i w = Inr (printf (thermal_lines rc_t a b @ [Blank]) w4)"
    using i c gv gt by (simp add: report_gpu_def Let_def)
  have s: "same_session w w4"
    using s2 s3 s4 by (simp add: same_session_def printf_def)
  have o: "out w4 = out w @ [DashRule, GpuHeader (word_of_nat i), DashRule, ThermalsMask m, Blank] @
                voltage_lines rc_v v"
    using o2 o3 o4 by simp
  from c gv gt r u2' u3' u4 s o show ?thesis by blast
qed

lemma report_gpu_block:
  assumes u: "usable w" and i: "i < NVAPI_MAX_PHYSICAL_GPUS"
  shows "\<exists>w' m rc_v v rc_t a b. report_gpu env handles i w = Inr w' \<and> usable w' \<and>
     same_session w w' \<and>
     out w' = out w @ device_block i m (voltage_lines rc_v v) (thermal_lines rc_t a b)"
proof -
  from report_gpu_steps[OF u i, of env handles]
  obtain m rc_v v rc_t a b w4 where
    r: "report_gpu env handles i w = Inr (printf (thermal_lines rc_t a b @ [Blank]) w4)"
    and u4: "usable w4" and s: "same_session w w4"
    and o: "out w4 = out w @ [DashRule, GpuHeader (word_of_nat i), DashRule, ThermalsMask m, Blank] @
                voltage_lines rc_v v"
    by blast
  show ?thesis
    using r u4 s o
    by (intro exI[of _ "printf (thermal_lines rc_t a b @ [Blank]) w4"] exI[of _ m]
              exI[of _ rc_v] exI[of _ v] exI[of _ rc_t] exI[of _ a] exI[of _ b])
       (simp add: device_block_def)
qed

lemma report_gpus_blocks:
  "usable w \<Longrightarrow> n \<le> NVAPI_MAX_PHYSICAL_GPUS \<Longrightarrow>
   \<exists>w' blocks. report_gpus env handles n i w = Inr w' \<and> usable w' \<and> same_session w w' \<and>
     out w' = out w @ concat blocks \<and> length blocks = n - i \<and>
     (\<forall>k < n - i. is_device_block (i + k) (blocks ! k))"
proof (induction env handles n i w rule: report_gpus.induct)
  case (1 env handles n i w)
  show ?case
  proof (cases "i < n")
    case False
    then have "report_gpus env handles n i w = Inr w"
      by (simp add: report_gpus.simps)
    with False "1.prems" show ?thesis
      by (intro exI[of _ w] exI[of _ "[]"]) (simp add: same_session_refl)
  next
    case True
    with "1.prems" have i: "i < NVAPI_MAX_PHYSICAL_GPUS" by simp
    from report_gpu_block[OF "1.prems"(1) i, of env handles]
    obtain w1 blk where r: "report_gpu env handles i w = Inr w1" and u1: "usable w1"
      and s1: "same_session w w1" and o1: "out w1 = out w @ blk"
      and b1: "is_device_block i blk"
      unfolding is_device_block_def by blast
    from "1.IH"[OF True r u1 "1.prems"(2)]
    obtain w' blocks where rr: "report_gpus env handles n (i + 1) w1 = Inr w'"
      and u': "usable w'" and s': "same_session w1 w'"
      and o': "out w' = out w1 @ concat blocks" and len: "length blocks = n - (i + 1)"
      and bs: "\<forall>k < n - (i + 1). is_device_block (i + 1 + k) (blocks ! k)"
      by blast
    have run: "report_gpus env handles n i w = Inr w'"
      using True r rr by (simp add: report_gpus.simps[of env handles n i])
    have all: "\<forall>k < n - i. is_device_block (i + k) ((blk # blocks) ! k)"
    proof (intro allI impI)
      fix k assume k: "k < n - i"
      show "is_device_block (i + k) ((blk # blocks) ! k)"
      proof (cases k)
        case 0
        with b1 show ?thesis by simp
      next
        case (Suc j)
        with k have "j < n - (i + 1)" by simp
        with bs have "is_device_block (i + 1 + j) (blocks ! j)" by blast
        with Suc show ?thesis by simp
      qed
    qed
    show ?thesis
      using run u' same_session_trans[OF s1 s'] o1 o' len True all
      by (intro exI[of _ w'] exI[of _ "blk # blocks"]) simp
  qed
qed



lemma report_gpus_out_of_bounds:
  "usable w \<Longrightarrow> i \<le> NVAPI_MAX_PHYSICAL_GPUS \<Longrightarrow> NVAPI_MAX_PHYSICAL_GPUS < n \<Longrightarrow>
   report_gpus env handles n i w = Inl OutOfBounds"
proof (induction env handles n i w rule: report_gpus.induct)
  case (1 env handles n i w)
  from "1.prems" have lt: "i < n" by simp
  show ?case
  proof (cases "i < NVAPI_MAX_PHYSICAL_GPUS")
    case False
    then have "report_gpu env handles i w = Inl OutOfBounds"
      by (simp add: report_gpu_def Let_def)
    with lt show ?thesis by (simp add: report_gpus.simps[of env handles n i])
  next
    case True
    from report_gpu_block[OF "1.prems"(1) True, of env handles]
    obtain w1 where r: "report_gpu env handles i w = Inr w1" and u1: "usable w1"
      by blast
    from True have "i + 1 \<le> NVAPI_MAX_PHYSICAL_GPUS" by simp
    from "1.IH"[OF lt r u1 this "1.prems"(3)] lt r
    show ?thesis by (simp add: report_gpus.simps[of env handles n i])
  qed
qed

lemma main_cases:
  "\<exists>rc_load w1.
     load_nvapi env (printf [Rule, Title, Subtitle, Rule, Blank] w) = Inr (rc_load, w1) \<and>
     (if rc_load \<noteq> 0 then
        main env handles0 w = Inr (1, w1) \<and> mapped w1 = mapped w \<and>
        trace w1 = trace w @
          (if dlopen_result env = None then [DlOpen None]
           else [DlOpen (dlopen_result env), DlSym None, DlClose])
      else \<exists>rc_init w2.
        init_nvapi env w1 = Inr (rc_init, w2) \<and>
        (if rc_init \<noteq> 0 then
           \<exists>w3. main env handles0 w = Inr (1, w3) \<and> mapped w3 = mapped w \<and>
             trace w3 = trace w2 @ [DlClose]
         else \<exists>rc_enum handles gpu_count w3.
           enum_physical_gpus env handles0 0 w2 = Inr (rc_enum, handles, gpu_count, w3) \<and>
           (if rc_enum \<noteq> 0 then
              \<exists>w4. main env handles0 w = Inr (1, w4) \<and> mapped w4 = mapped w \<and>
                trace w4 = trace w3 @ spec_unload_calls env w3 \<and> last (trace w4) = DlClose
            else if unat gpu_count \<le> NVAPI_MAX_PHYSICAL_GPUS then
              \<exists>w4 blocks. main env handles0 w = Inr (0, w4) \<and> mapped w4 = mapped w \<and>
                last (trace w4) = DlClose \<and> length blocks = unat gpu_count \<and>
                out w4 = out w3 @ [FoundGpus gpu_count, Blank] @ concat blocks @ [Done]
            else main env handles0 w = Inl OutOfBounds)))"
proof -
  let ?w0 = "printf [Rule, Title, Subtitle, Rule, Blank] w"
  have m0: "mapped ?w0 = mapped w" and t0: "trace ?w0 = trace w"
    by (simp_all add: printf_def)
  from load_nvapi_cases[of env ?w0]
  obtain rc_load w1 where ld: "load_nvapi env ?w0 = Inr (rc_load, w1)"
    and lc: "rc_load = 0 \<and> usable w1 \<and> nvapi_lib w1 \<noteq> None \<and> mapped w1 = mapped ?w0 + 1 \<and>
        dlopen_result env \<noteq> None \<and> dlsym_result env \<noteq> None \<and>
        trace w1 = trace ?w0 @ [DlOpen (dlopen_result env), DlSym (dlsym_result env)] \<or>
      rc_load = - 1 \<and> mapped w1 = mapped ?w0 \<and> dlopen_result env = None \<and>
        trace w1 = trace ?w0 @ [DlOpen None] \<or>
      rc_load = - 1 \<and> mapped w1 = mapped ?w0 \<and> dlopen_result env \<noteq> None \<and>
        dlsym_result env = None \<and>
        trace w1 = trace ?w0 @ [DlOpen (dlopen_result env), DlSym None, DlClose]"
    by blast
  show ?thesis
  proof (cases "rc_load = 0")
    case False
    with lc have "mapped w1 = mapped w \<and> trace w1 = trace w @
          (if dlopen_result env = None then [DlOpen None]
           else [DlOpen (dlopen_result env), DlSym None, DlClose])"
      using m0 t0 by auto
    moreover have "main env handles0 w = Inr (1, w1)"
      using ld False by (simp add: main_def)
    ultimately show ?thesis
      using ld False by (intro exI[of _ rc_load] exI[of _ w1]) simp
  next
    case l0: True
    with lc have u1: "usable w1" and lib1: "nvapi_lib w1 \<noteq> None"
      and m1: "mapped w1 = mapped w + 1"
      using m0 by auto
    from init_nvapi_usable[OF u1, of env]
    obtain rc_init w2 where ini: "init_nvapi env w1 = Inr (rc_init, w2)"
      and s2: "same_session w1 w2" by blast
    have u2: "usable w2" using same_session_usable[OF s2 u1] .
    have lib2: "nvapi_lib w2 \<noteq> None" and m2: "mapped w2 = mapped w + 1"
      using s2 lib1 m1 by (simp_all add: same_session_def)
    have inner: "if rc_init \<noteq> 0 then
           \<exists>w3. main env handles0 w = Inr (1, w3) \<and> mapped w3 = mapped w \<and>
             trace w3 = trace w2 @ [DlClose]
         else \<exists>rc_enum handles gpu_count w3.
           enum_physical_gpus env handles0 0 w2 = Inr (rc_enum, handles, gpu_count, w3) \<and>
           (if rc_enum \<noteq> 0 then
              \<exists>w4. main env handles0 w = Inr (1, w4) \<and> mapped w4 = mapped w \<and>
                trace w4 = trace w3 @ spec_unload_calls env w3 \<and> last (trace w4) = DlClose
            else if unat gpu_count \<le> NVAPI_MAX_PHYSICAL_GPUS then
              \<exists>w4 blocks. main env handles0 w = Inr (0, w4) \<and> mapped w4 = mapped w \<and>
                last (trace w4) = DlClose \<and> length blocks = unat gpu_count \<and>
                out w4 = out w3 @ [FoundGpus gpu_count, Blank] @ concat blocks @ [Done]
            else main env handles0 w = Inl OutOfBounds)"
    proof (cases "rc_init = 0")
      case False
      from dlclose_usable[of w2 "nvapi_lib w2"] m2 lib2
      obtain w3 where dc: "dlclose (nvapi_lib w2) w2 = Inr w3"
        and t3: "trace w3 = trace w2 @ [DlClose]" and m3: "mapped w3 = mapped w2 - 1"
        by auto
      have "main env handles0 w = Inr (1, w3)"
        using ld l0 ini False dc by (simp add: main_def)
      with False t3 m3 m2 show ?thesis by simp
    next
      case i0: True
      from enum_physical_gpus_usable[OF u2, of env handles0 0]
      obtain rc_enum handles gpu_count w3 where
        en: "enum_physical_gpus env handles0 0 w2 = Inr (rc_enum, handles, gpu_count, w3)"
        and s3: "same_session w2 w3" by blast
      have u3: "usable w3" using same_session_usable[OF s3 u2] .
      have lib3: "nvapi_lib w3 \<noteq> None" and m3: "mapped w3 = mapped w + 1"
        using s3 lib2 m2 by (simp_all add: same_session_def)
      have "if rc_enum \<noteq> 0 then
              \<exists>w4. main env handles0 w = Inr (1, w4) \<and> mapped w4 = mapped w \<and>
                trace w4 = trace w3 @ spec_unload_calls env w3 \<and> last (trace w4) = DlClose
            else if unat gpu_count \<le> NVAPI_MAX_PHYSICAL_GPUS then
              \<exists>w4 blocks. main env handles0 w = Inr (0, w4) \<and> mapped w4 = mapped w \<and>
                last (trace w4) = DlClose \<and> length blocks = unat gpu_count \<and>
                out w4 = out w3 @ [FoundGpus gpu_count, Blank] @ concat blocks @ [Done]
            else main env handles0 w = Inl OutOfBounds"
      proof (cases "rc_enum = 0")
        case False
        from unload_nvapi_fresh[of w3 env] u3 lib3
        obtain w4 where un: "unload_nvapi env w3 = Inr w4"
          and t4: "trace w4 = trace w3 @ spec_unload_calls env w3"
          and m4: "mapped w4 = mapped w3 - 1"
          by (auto simp: usable_def)
        have "main env handles0 w = Inr (1, w4)"
          using ld l0 ini i0 en False un by (simp add: main_def)
        with False t4 m4 m3 lib3 show ?thesis
          by (simp add: spec_unload_calls_last)
      next
        case e0: True
        let ?w3 = "printf [FoundGpus gpu_count, Blank] w3"
        have u3': "usable ?w3" using u3 by simp
        show ?thesis
        proof (cases "unat gpu_count \<le> NVAPI_MAX_PHYSICAL_GPUS")
          case False
          then have "report_gpus env handles (unat gpu_count) 0 ?w3 = Inl OutOfBounds"
            using report_gpus_out_of_bounds[OF u3', of 0 "unat gpu_count" env handles] by simp
          then have "main env handles0 w = Inl OutOfBounds"
            using ld l0 ini i0 en e0 by (simp add: main_def)
          with e0 False show ?thesis by simp
        next
          case True
          from report_gpus_blocks[OF u3' True, of env handles 0]
          obtain w4 blocks where rg: "report_gpus env handles (unat gpu_count) 0 ?w3 = Inr w4"
            and u4: "usable w4" and s4: "same_session ?w3 w4"
            and o4: "out w4 = out ?w3 @ concat blocks"
            and len: "length blocks = unat gpu_count"
            by auto
          have lib4: "nvapi_lib w4 \<noteq> None" and m4: "mapped w4 = mapped w + 1"
            using s4 lib3 m3 by (simp_all add: same_session_def printf_def)
          from unload_nvapi_fresh[of w4 env] u4 lib4
          obtain w5 where un: "unload_nvapi env w4 = Inr w5"
            and t5: "trace w5 = trace w4 @ spec_unload_calls env w4"
            and m5: "mapped w5 = mapped w4 - 1" and o5: "out w5 = out w4"
            by (auto simp: usable_def)
          have mn: "main env handles0 w = Inr (0, printf [Done] w5)"
            using ld l0 ini i0 en e0 rg un by (simp add: main_def)
          have "mapped (printf [Done] w5) = mapped w"
            using m5 m4 by (simp add: printf_def)
          moreover have "last (trace (printf [Done] w5)) = DlClose"
            using t5 lib4 by (simp add: printf_def spec_unload_calls_last)
          moreover have "out (printf [Done] w5) =
              out w3 @ [FoundGpus gpu_count, Blank] @ concat blocks @ [Done]"
            using o5 o4 by simp
          ultimately show ?thesis
            using e0 True mn len by auto
        qed
      qed
      with en i0 show ?thesis by auto
    qed
    show ?thesis
      using ld l0 ini inner by (intro exI[of _ rc_load] exI[of _ w1]) auto
  qed
qed

section \<open>Evaluation of the printed text\<close>

declare show_nat.simps [simp del]
declare bit_length.simps [simp del]

lemmas render_simps = show_u_def show_d_def show_08x_def show_3f_def volts_thousandths_def
  thousandths_def f32_div_1000000_def quotient_shift_def f32_of_u32_def f32_round_def rne_def
  bit_length.simps show_nat.simps digit_char_def Let_def

section \<open>Evaluation of the simulated runs\<close>

lemmas run_simps = sim_simps reads_def without_def get_thermals_def get_voltage_def
  calculate_thermals_mask_def get_nvapi_function_def call_thermals_def call_voltage_def
  world_ops zero_NvApiThermals_def zero_NvApiVoltage_def

lemmas main_simps = main_def load_nvapi_def init_nvapi_def enum_physical_gpus_def
  unload_nvapi_def dlclose_def report_gpu_def report_gpus.simps probe_bits.simps
  initial_world_def no_handles_def second_fails_def exit_code_of_def stdout_of_def
  voltage_lines_def thermal_lines_def NVAPI_MAX_PHYSICAL_GPUS_def Let_def
  decode_temperature_sdiv signed_divide_int_def word_sle_eq

lemmas fixture_simps = no_module_def no_symbol_def failing_init_def failing_enum_def
  run_trace_def

section \<open>The mask prober\<close>

text \<open>
  Claim C1, as amended. When the thermal interface resolves, \<^verbatim>\<open>calculate_thermals_mask\<close>
  returns, and
  the driver calls it makes are one or more thermal calls on the device: the first, the
  baseline, passes a zeroed structure with the version stamp and mask 1; the following
  ones pass the masks \<open>1 << 0\<close>, \<open>1 << 1\<close>, ... in this order, at most 32 of them; every call
  but the last succeeded. If the last call succeeded, all 32 bits were probed and the
  result is \<open>0xFFFFFFFF\<close>. If the baseline failed, the result is 1. If the probe of bit
  \<open>b\<close> failed, the result is the mask field as that call left it, minus 1 modulo
  \<open>2 ^ 32\<close>: this is \<open>(1 << b) - 1\<close> when the failed call left the mask field as passed.
\<close>

theorem calculate_thermals_mask_probes:
  assumes u: "usable w"
    and r: "fst (query_interface env QUERY_NVAPI_THERMALS (driver w))"
  shows "\<exists>m w' calls.
     calculate_thermals_mask env h w = Inr (m, w') \<and>
     trace w' = trace w @ QueryInterface QUERY_NVAPI_THERMALS True # map (thermal_event h) calls \<and>
     calls \<noteq> [] \<and> length calls \<le> 33 \<and>
     fst (hd calls) = zero_NvApiThermals\<lparr>th_version := thermals_stamp, th_mask := 1\<rparr> \<and>
     map (\<lambda>c. th_mask (fst c)) (tl calls) = map (\<lambda>k. push_bit k 1) [0..<length calls - 1] \<and>
     (\<forall>c \<in> set (butlast calls). fst (snd c) = 0) \<and>
     (case last calls of (t, st, t') \<Rightarrow>
        if st = 0 then length calls = 33 \<and> m = 0xFFFFFFFF
        else if length calls = 1 then m = 1
        else m = th_mask t' - 1 \<and>
             (th_mask t' = th_mask t \<longrightarrow> m = push_bit (length calls - 2) 1 - 1))"
proof -
  let ?t0 = "zero_NvApiThermals\<lparr>th_version := thermals_stamp, th_mask := 1\<rparr>"
  from get_nvapi_function_usable[OF u, of env QUERY_NVAPI_THERMALS] r
  obtain w1 where g: "get_nvapi_function env QUERY_NVAPI_THERMALS w = Inr (True, w1)"
    and tr1: "trace w1 = trace w @ [QueryInterface QUERY_NVAPI_THERMALS True]"
    by auto
  obtain st t1 w2 where c: "call_thermals env h ?t0 w1 = (st, t1, w2)"
    by (cases "call_thermals env h ?t0 w1") auto
  from call_thermals_frame[OF c]
  have tr2: "trace w2 = trace w1 @ [CallThermals h ?t0 st t1]" by simp
  show ?thesis
  proof (cases "st = 0")
    case False
    then have "calculate_thermals_mask env h w = Inr (1, eprintf [WarnInitialThermals] w2)"
      using g c by (simp add: calculate_thermals_mask_def)
    moreover have "trace (eprintf [WarnInitialThermals] w2) =
        trace w @ QueryInterface QUERY_NVAPI_THERMALS True # map (thermal_event h) [(?t0, st, t1)]"
      using tr1 tr2 by (simp add: eprintf_def thermal_event_def)
    ultimately show ?thesis
      using False by (intro exI[of _ 1] exI[of _ "eprintf [WarnInitialThermals] w2"]
          exI[of _ "[(?t0, st, t1)]"]) simp
  next
    case st0: True
    obtain m w' where p: "probe_bits env h 0 t1 w2 = (m, w')"
      by (cases "probe_bits env h 0 t1 w2") auto
    from probe_bits_trace[OF p]
    obtain calls where
      tr: "trace w' = trace w2 @ map (thermal_event h) calls" and
      len: "length calls \<le> 32" and
      masks: "map (\<lambda>c. th_mask (fst c)) calls = map (\<lambda>k. push_bit k 1) [0..<length calls]" and
      succ: "\<forall>c \<in> set (butlast calls). fst (snd c) = 0" and
      res: "if calls \<noteq> [] \<and> fst (snd (last calls)) \<noteq> 0
            then m = th_mask (snd (snd (last calls))) - 1
            else length calls = 32 \<and> m = 0xFFFFFFFF"
      by auto
    have ne: "calls \<noteq> []" using res by (auto split: if_splits)
    let ?calls = "(?t0, st, t1) # calls"
    have 1: "calculate_thermals_mask env h w = Inr (m, w')"
      using g c p st0 by (simp add: calculate_thermals_mask_def)
    have 2: "trace w' = trace w @ QueryInterface QUERY_NVAPI_THERMALS True # map (thermal_event h) ?calls"
      using tr tr1 tr2 by (simp add: thermal_event_def)
    have 3: "\<forall>c \<in> set (butlast ?calls). fst (snd c) = 0"
      using succ st0 ne by auto
    have lastmask: "th_mask (fst (last calls)) = push_bit (length calls - 1) 1"
    proof -
      have "th_mask (fst (last calls)) = map (\<lambda>c. th_mask (fst c)) calls ! (length calls - 1)"
        using ne by (simp add: last_conv_nth)
      also have "\<dots> = push_bit (length calls - 1) 1"
        using ne by (simp add: masks)
      finally show ?thesis .
    qed
    have 4: "case last ?calls of (t, st, t') \<Rightarrow>
        if st = 0 then length ?calls = 33 \<and> m = 0xFFFFFFFF
        else if length ?calls = 1 then m = 1
        else m = th_mask t' - 1 \<and>
             (th_mask t' = th_mask t \<longrightarrow> m = push_bit (length ?calls - 2) 1 - 1)"
      using res ne lastmask by (cases "last calls") (auto split: if_splits)
    show ?thesis
      using 1 2 3 4 masks len ne
      by (intro exI[of _ m] exI[of _ w'] exI[of _ ?calls]) simp
  qed
qed

text \<open>
  The result is read back from the structure the driver was given. With a driver that
  rejects the probe of bit 2 and clears the mask field when it rejects, the first failing
  probe is the one of bit 2 and the result is \<open>0xFFFFFFFF\<close>, not \<open>(1 << 2) - 1\<close>.
\<close>

theorem calculate_thermals_mask_probes_counterexample:
  "map mask_and_status
     (run_trace (calculate_thermals_mask (sim_env clears_mask (volts 850000) 1) 0 ready_world))
     = [None, Some (1, 0), Some (1, 0), Some (2, 0), Some (4, 1)] \<and>
   mask_of (calculate_thermals_mask (sim_env clears_mask (volts 850000) 1) 0 ready_world)
     = Some 0xFFFFFFFF \<and>
   push_bit 2 1 - 1 = (3 :: uint32_t)"
  by (simp add: run_trace_def mask_of_def run_simps clears_mask_def probe_bits.simps)

text \<open>
  The driver that fails every probe above bit 5 and leaves the structure as passed gives
  \<open>0x3F\<close>; the theorem applies to it.
\<close>

theorem calculate_thermals_mask_probes_witness:
  "usable ready_world \<and>
   fst (query_interface (sim_env (fails_above 5) (volts 850000) 1) QUERY_NVAPI_THERMALS
          (driver ready_world)) \<and>
   mask_of (calculate_thermals_mask (sim_env (fails_above 5) (volts 850000) 1) 0 ready_world)
     = Some 0x3F"
proof -
  let ?env = "sim_env (fails_above 5) (volts 850000) 1"
  have u: "usable ready_world"
    by (simp add: usable_def ready_world_def)
  have r: "fst (query_interface ?env QUERY_NVAPI_THERMALS (driver ready_world))"
    by (simp add: sim_env_def)
  from calculate_thermals_mask_probes[OF u r, of 0]
  obtain m w' where "calculate_thermals_mask ?env 0 ready_world = Inr (m, w')"
    by blast
  then have "mask_of (calculate_thermals_mask ?env 0 ready_world) = Some m"
    by (simp add: mask_of_def)
  moreover have "mask_of (calculate_thermals_mask ?env 0 ready_world) = Some 0x3F"
    by (simp add: sim_simps calculate_thermals_mask_def get_nvapi_function_def
        call_thermals_def world_ops zero_NvApiThermals_def mask_of_def probe_bits.simps)
  ultimately show ?thesis
    using u r by simp
qed

section \<open>The thermal reader\<close>

text \<open>
  Claim C2. When \<^verbatim>\<open>get_thermals\<close> returns 0, its last driver call is a thermal call that
  returned status 0, and the two values it hands back are decoded from the slots 9 and
  15 of the structure that call left: the quotient \<^verbatim>\<open>raw / 256\<close> when it lies strictly
  between 0 and 255, and -1 otherwise. The report prints the quotient as a temperature
  in the first case and "Not available" in the second, never 0 or 255. The quotient is
  strictly between 0 and 255 exactly for the raw values from 256 up to 65279.
\<close>

theorem get_thermals_filters_range:
  assumes "get_thermals env h m a0 b0 w = Inr (0, a, b, w')"
  shows "\<exists>t t'. last (trace w') = CallThermals h t 0 t' \<and>
     a = (if 0 < raw_quotient (th_values t' 9) \<and> raw_quotient (th_values t' 9) < 255
          then word_of_int (raw_quotient (th_values t' 9)) else - 1) \<and>
     b = (if 0 < raw_quotient (th_values t' 15) \<and> raw_quotient (th_values t' 15) < 255
          then word_of_int (raw_quotient (th_values t' 15)) else - 1) \<and>
     thermal_lines 0 a b =
       [if 0 < raw_quotient (th_values t' 9) \<and> raw_quotient (th_values t' 9) < 255
        then HotspotTemperature (word_of_int (raw_quotient (th_values t' 9)))
        else HotspotNotAvailable,
        if 0 < raw_quotient (th_values t' 15) \<and> raw_quotient (th_values t' 15) < 255
        then MemoryTemperature (word_of_int (raw_quotient (th_values t' 15)))
        else MemoryNotAvailable] \<and>
     (0 < raw_quotient (th_values t' 9) \<and> raw_quotient (th_values t' 9) < 255) =
       (256 \<le> sint (th_values t' 9) \<and> sint (th_values t' 9) < 65280) \<and>
     (0 < raw_quotient (th_values t' 15) \<and> raw_quotient (th_values t' 15) < 255) =
       (256 \<le> sint (th_values t' 15) \<and> sint (th_values t' 15) < 65280)"
proof -
  from get_thermals_success[OF assms]
  obtain t' where l: "last (trace w') =
      CallThermals h (zero_NvApiThermals\<lparr>th_version := thermals_stamp, th_mask := m\<rparr>) 0 t'"
    and a: "a = decode_temperature (th_values t' 9)"
    and b: "b = decode_temperature (th_values t' 15)"
    by blast
  have la: "thermal_lines 0 a b =
       [if 0 < raw_quotient (th_values t' 9) \<and> raw_quotient (th_values t' 9) < 255
        then HotspotTemperature (word_of_int (raw_quotient (th_values t' 9)))
        else HotspotNotAvailable,
        if 0 < raw_quotient (th_values t' 15) \<and> raw_quotient (th_values t' 15) < 255
        then MemoryTemperature (word_of_int (raw_quotient (th_values t' 15)))
        else MemoryNotAvailable]"
    unfolding thermal_lines_def a b thermal_line_decode raw_quotient_def
    by (simp add: decode_temperature_sdiv)
  show ?thesis
    using l a b la
    by (intro exI[of _ "zero_NvApiThermals\<lparr>th_version := thermals_stamp, th_mask := m\<rparr>"]
              exI[of _ t'])
       (simp add: decode_temperature_sdiv raw_quotient_def sdiv_256_in_range)
qed

text \<open>
  Raw 6400 is reported as 25 and raw 0 as not available; raw 65280 is not available and
  raw 65279 is 254.
\<close>

theorem get_thermals_filters_range_witness:
  "temps_of (get_thermals (sim_env (reads 6400 0) (volts 850000) 1) 0 1 0 0 ready_world)
     = Some (0, 25, - 1) \<and>
   thermal_lines 0 25 (- 1) = [HotspotTemperature 25, MemoryNotAvailable] \<and>
   temps_of (get_thermals (sim_env (reads 65280 65279) (volts 850000) 1) 0 1 0 0 ready_world)
     = Some (0, - 1, 254) \<and>
   thermal_lines 0 (- 1) 254 = [HotspotNotAvailable, MemoryTemperature 254]"
proof -
  let ?env = "sim_env (reads 6400 0) (volts 850000) 1"
  have "\<exists>w'. get_thermals ?env 0 1 0 0 ready_world = Inr (0, 25, - 1, w')"
    by (simp add: run_simps decode_temperature_sdiv signed_divide_int_def)
  then obtain w' where run: "get_thermals ?env 0 1 0 0 ready_world = Inr (0, 25, - 1, w')"
    by blast
  have "\<exists>t t'. last (trace w') = CallThermals 0 t 0 t'"
    using get_thermals_filters_range[OF run]
    by - (elim exE conjE, intro exI, assumption)
  moreover have "thermal_lines 0 25 (- 1) = [HotspotTemperature 25, MemoryNotAvailable]"
    by (simp add: thermal_lines_def word_sle_eq)
  moreover have "thermal_lines 0 (- 1) 254 = [HotspotNotAvailable, MemoryTemperature 254]"
    by (simp add: thermal_lines_def word_sle_eq)
  moreover have "temps_of (get_thermals (sim_env (reads 65280 65279) (volts 850000) 1) 0 1 0 0
      ready_world) = Some (0, - 1, 254)"
    by (simp add: run_simps temps_of_def decode_temperature_sdiv signed_divide_int_def)
  ultimately show ?thesis
    using run by (simp add: temps_of_def)
qed

section \<open>Version stamps\<close>

text \<open>
  Claim C3, as amended. The stamps are the byte size of the structure in the low 16 bits
  and the version number above: \<open>0x200A8\<close> for the thermal structure (168 bytes, version 2)
  and \<open>0x1004C\<close> for the voltage structure (76 bytes, version 1). In a state where the
  resolver can be called, the voltage reader and the thermal reader build and stamp a
  structure for each call, so every call they make carries the stamp. The prober stamps
  its structure once: its first call carries the stamp and each later call carries the
  version field as the call before it left it, so all its calls carry the stamp when the
  driver leaves that field as passed.
\<close>

theorem version_stamps:
  assumes u: "usable w"
  shows "thermals_stamp = 0x200A8 \<and> voltage_stamp = 0x1004C \<and>
     unat (take_bit 16 thermals_stamp) = sizeof_NvApiThermals \<and> drop_bit 16 thermals_stamp = 2 \<and>
     unat (take_bit 16 voltage_stamp) = sizeof_NvApiVoltage \<and> drop_bit 16 voltage_stamp = 1 \<and>
     (\<exists>rc v w' evs. get_voltage env h v0 w = Inr (rc, v, w') \<and>
         trace w' = trace w @ evs \<and> list_all stamped evs) \<and>
     (\<exists>rc a b w' evs. get_thermals env h m a0 b0 w = Inr (rc, a, b, w') \<and>
         trace w' = trace w @ evs \<and> list_all stamped evs) \<and>
     (\<exists>m' w' r calls. calculate_thermals_mask env h w = Inr (m', w') \<and>
         trace w' = trace w @ QueryInterface QUERY_NVAPI_THERMALS r # map (thermal_event h) calls \<and>
         versions_follow thermals_stamp calls \<and>
         ((\<forall>c \<in> set calls. th_version (snd (snd c)) = th_version (fst c)) \<longrightarrow>
            list_all stamped (QueryInterface QUERY_NVAPI_THERMALS r # map (thermal_event h) calls)))"
proof -
  from calculate_thermals_mask_versions[OF u, of env h]
  obtain m' w' r calls where c: "calculate_thermals_mask env h w = Inr (m', w')"
    "trace w' = trace w @ QueryInterface QUERY_NVAPI_THERMALS r # map (thermal_event h) calls"
    "versions_follow thermals_stamp calls"
    by blast
  have "(\<forall>c \<in> set calls. th_version (snd (snd c)) = th_version (fst c)) \<longrightarrow>
            list_all stamped (QueryInterface QUERY_NVAPI_THERMALS r # map (thermal_event h) calls)"
    using versions_follow_kept[OF c(3)] by (simp add: stamped_thermal_event)
  with c have 3: "\<exists>m' w' r calls. calculate_thermals_mask env h w = Inr (m', w') \<and>
         trace w' = trace w @ QueryInterface QUERY_NVAPI_THERMALS r # map (thermal_event h) calls \<and>
         versions_follow thermals_stamp calls \<and>
         ((\<forall>c \<in> set calls. th_version (snd (snd c)) = th_version (fst c)) \<longrightarrow>
            list_all stamped (QueryInterface QUERY_NVAPI_THERMALS r # map (thermal_event h) calls))"
    by blast
  have 4: "unat (take_bit 16 thermals_stamp) = sizeof_NvApiThermals \<and> drop_bit 16 thermals_stamp = 2 \<and>
     unat (take_bit 16 voltage_stamp) = sizeof_NvApiVoltage \<and> drop_bit 16 voltage_stamp = 1"
    by (simp add: thermals_stamp_value voltage_stamp_value sizeof_NvApiThermals_def
        sizeof_NvApiVoltage_def)
  show ?thesis
    using get_voltage_stamped[OF u, of env h v0] get_thermals_stamped[OF u, of env h m a0 b0] 3 4
      thermals_stamp_value voltage_stamp_value
    by blast
qed

text \<open>
  With a driver that checks the stamp and writes its own version number back, the
  second call of the prober does not carry the stamp.
\<close>

theorem version_stamps_counterexample:
  "map stamped (run_trace (calculate_thermals_mask (sim_env downgrades (volts 850000) 1) 0
      ready_world)) = [True, True, False]"
  by (simp add: run_trace_def run_simps downgrades_def probe_bits.simps thermals_stamp_value)

text \<open>With a driver that writes nothing, all nine calls of a prober run carry the stamp.\<close>

theorem version_stamps_witness:
  "usable ready_world \<and>
   list_all stamped (run_trace (calculate_thermals_mask (sim_env (fails_above 5) (volts 850000) 1)
      0 ready_world)) \<and>
   length (run_trace (calculate_thermals_mask (sim_env (fails_above 5) (volts 850000) 1)
      0 ready_world)) = 9"
proof -
  let ?env = "sim_env (fails_above 5) (volts 850000) 1"
  have u: "usable ready_world"
    by (simp add: usable_def ready_world_def)
  have "\<exists>m' w'. calculate_thermals_mask ?env 0 ready_world = Inr (m', w')"
    using version_stamps[OF u, of ?env 0 0 0 0 0] by blast
  then obtain m' w' where "calculate_thermals_mask ?env 0 ready_world = Inr (m', w')"
    by blast
  then have "run_trace (calculate_thermals_mask ?env 0 ready_world) = trace w'"
    by (simp add: run_trace_def)
  moreover have "list_all stamped (run_trace (calculate_thermals_mask ?env 0 ready_world)) \<and>
      length (run_trace (calculate_thermals_mask ?env 0 ready_world)) = 9"
    by (simp add: run_trace_def run_simps probe_bits.simps thermals_stamp_value)
  ultimately show ?thesis
    using u by simp
qed

section \<open>Partial failure\<close>



section \<open>The voltage reader\<close>

text \<open>
  Claim C5. When \<^verbatim>\<open>get_voltage\<close> returns 0, its last driver call is a voltage call that
  returned status 0, the value it hands back is the field \<^verbatim>\<open>value_uv\<close> exactly as that call
  left it, whatever it is, and the report prints the voltage line with that value.
\<close>

theorem get_voltage_verbatim:
  assumes "get_voltage env h v0 w = Inr (0, v, w')"
  shows "\<exists>arg v'. last (trace w') = CallVoltage h arg 0 v' \<and> v = vo_value_uv v' \<and>
           voltage_lines 0 v = [CoreVoltage (vo_value_uv v')]"
proof -
  from get_voltage_success[OF assms]
  obtain v' where "last (trace w') =
      CallVoltage h (zero_NvApiVoltage\<lparr>vo_version := voltage_stamp\<rparr>) 0 v'"
    and "v = vo_value_uv v'"
    by blast
  then show ?thesis
    by (intro exI[of _ "zero_NvApiVoltage\<lparr>vo_version := voltage_stamp\<rparr>"] exI[of _ v'])
       (simp add: voltage_lines_def)
qed

text \<open>
  The values 850000, 0 and \<open>0xFFFFFFFF\<close> all come back unchanged, and each of them is
  printed: the line of 850000 reads "0.850 V" and "850000".
\<close>

theorem get_voltage_verbatim_witness:
  "voltage_of (get_voltage (sim_env never_fails (volts 850000) 1) 0 0 ready_world)
     = Some (0, 850000) \<and>
   voltage_lines 0 850000 = [CoreVoltage 850000] \<and>
   voltage_of (get_voltage (sim_env never_fails (volts 0) 1) 0 7 ready_world) = Some (0, 0) \<and>
   voltage_of (get_voltage (sim_env never_fails (volts 0xFFFFFFFF) 1) 0 0 ready_world)
     = Some (0, 0xFFFFFFFF) \<and>
   render (CoreVoltage 850000) =
     ''Core Voltage: 0.850 V (850000 '' @ [CHR 0xC2, CHR 0xB5] @ ''V)'' \<and>
   render (CoreVoltage 0) = ''Core Voltage: 0.000 V (0 '' @ [CHR 0xC2, CHR 0xB5] @ ''V)'' \<and>
   render (CoreVoltage 0xFFFFFFFF) =
     ''Core Voltage: 4294.967 V (4294967295 '' @ [CHR 0xC2, CHR 0xB5] @ ''V)''"
proof -
  let ?env = "sim_env never_fails (volts 850000) 1"
  have "\<exists>w'. get_voltage ?env 0 0 ready_world = Inr (0, 850000, w')"
    by (simp add: run_simps)
  then obtain w' where run: "get_voltage ?env 0 0 ready_world = Inr (0, 850000, w')"
    by blast
  have "\<exists>v' :: NvApiVoltage. voltage_lines 0 850000 = [CoreVoltage (vo_value_uv v')] \<and> 850000 = vo_value_uv v'"
    using get_voltage_verbatim[OF run]
    by blast
  then have a: "voltage_lines 0 850000 = [CoreVoltage 850000]"
    by auto
  have b: "voltage_of (get_voltage (sim_env never_fails (volts 0) 1) 0 7 ready_world)
      = Some (0, 0)"
    by (simp add: run_simps voltage_of_def)
  have c: "voltage_of (get_voltage (sim_env never_fails (volts 0xFFFFFFFF) 1) 0 0
      ready_world) = Some (0, 0xFFFFFFFF)"
    by (simp add: run_simps voltage_of_def)
  have d: "voltage_of (get_voltage ?env 0 0 ready_world) = Some (0, 850000)"
    using run by (simp add: voltage_of_def)
  have e: "render (CoreVoltage 850000) =
      ''Core Voltage: 0.850 V (850000 '' @ [CHR 0xC2, CHR 0xB5] @ ''V)''"
    by (simp add: render_simps)
  have f: "render (CoreVoltage 0) =
      ''Core Voltage: 0.000 V (0 '' @ [CHR 0xC2, CHR 0xB5] @ ''V)''"
    by (simp add: render_simps)
  have g: "render (CoreVoltage 0xFFFFFFFF) =
      ''Core Voltage: 4294.967 V (4294967295 '' @ [CHR 0xC2, CHR 0xB5] @ ''V)''"
    by (simp add: render_simps)
  show ?thesis
    by (intro conjI d a b c e f g)
qed

section \<open>Exit codes\<close>

text \<open>
  Claim C6, as amended. \<^verbatim>\<open>main\<close> prints the banner and calls \<^verbatim>\<open>load_nvapi\<close>, which returns.
  If the load failed, \<^verbatim>\<open>main\<close> exits with 1; nothing was opened when \<^verbatim>\<open>dlopen\<close> failed, and
  the module was closed again by \<^verbatim>\<open>load_nvapi\<close> when the symbol was missing. Otherwise
  \<^verbatim>\<open>init_nvapi\<close> returns; if it failed, \<^verbatim>\<open>main\<close> closes the module and exits with 1.
  Otherwise \<^verbatim>\<open>enum_physical_gpus\<close> returns; if it failed, \<^verbatim>\<open>main\<close> makes the calls of
  \<^verbatim>\<open>unload()\<close>, the last of which closes the module, and exits with 1. If all three
  succeeded and the driver reports at most 64 devices, \<^verbatim>\<open>main\<close> exits with 0 after printing
  one block per reported device (none for zero devices) and "Done.", and after closing
  the module. On each of these exits the module is mapped as often as before the run. If
  the driver reports more than 64 devices, the loop reads past the end of \<^verbatim>\<open>handles\<close>.
\<close>

theorem main_exit_code:
  "(exit_code_of (main env handles0 w) = Some 0) =
     (\<exists>w1 w2 handles gpu_count w3.
        load_nvapi env (printf [Rule, Title, Subtitle, Rule, Blank] w) = Inr (0, w1) \<and>
        init_nvapi env w1 = Inr (0, w2) \<and>
        enum_physical_gpus env handles0 0 w2 = Inr (0, handles, gpu_count, w3) \<and>
        unat gpu_count \<le> NVAPI_MAX_PHYSICAL_GPUS) \<and>
   (exit_code_of (main env handles0 w) = Some 1) =
     (\<exists>rc_load w1.
        load_nvapi env (printf [Rule, Title, Subtitle, Rule, Blank] w) = Inr (rc_load, w1) \<and>
        (rc_load \<noteq> 0 \<or>
         (\<exists>rc_init w2. init_nvapi env w1 = Inr (rc_init, w2) \<and>
            (rc_init \<noteq> 0 \<or>
             (\<exists>rc_enum handles gpu_count w3.
                enum_physical_gpus env handles0 0 w2 = Inr (rc_enum, handles, gpu_count, w3) \<and>
                rc_enum \<noteq> 0))))) \<and>
   (\<exists>rc_load w1.
     load_nvapi env (printf [Rule, Title, Subtitle, Rule, Blank] w) = Inr (rc_load, w1) \<and>
     (if rc_load \<noteq> 0 then
        main env handles0 w = Inr (1, w1) \<and> mapped w1 = mapped w \<and>
        trace w1 = trace w @
          (if dlopen_result env = None then [DlOpen None]
           else [DlOpen (dlopen_result env), DlSym None, DlClose])
      else \<exists>rc_init w2.
        init_nvapi env w1 = Inr (rc_init, w2) \<and>
        (if rc_init \<noteq> 0 then
           \<exists>w3. main env handles0 w = Inr (1, w3) \<and> mapped w3 = mapped w \<and>
             trace w3 = trace w2 @ [DlClose]
         else \<exists>rc_enum handles gpu_count w3.
           enum_physical_gpus env handles0 0 w2 = Inr (rc_enum, handles, gpu_count, w3) \<and>
           (if rc_enum \<noteq> 0 then
              \<exists>w4. main env handles0 w = Inr (1, w4) \<and> mapped w4 = mapped w \<and>
                trace w4 = trace w3 @ spec_unload_calls env w3 \<and> last (trace w4) = DlClose
            else if unat gpu_count \<le> NVAPI_MAX_PHYSICAL_GPUS then
              \<exists>w4 blocks. main env handles0 w = Inr (0, w4) \<and> mapped w4 = mapped w \<and>
                last (trace w4) = DlClose \<and> length blocks = unat gpu_count \<and>
                out w4 = out w3 @ [FoundGpus gpu_count, Blank] @ concat blocks @ [Done]
            else main env handles0 w = Inl OutOfBounds))))"
proof (intro conjI)
  show "(exit_code_of (main env handles0 w) = Some 0) =
     (\<exists>w1 w2 handles gpu_count w3.
        load_nvapi env (printf [Rule, Title, Subtitle, Rule, Blank] w) = Inr (0, w1) \<and>
        init_nvapi env w1 = Inr (0, w2) \<and>
        enum_physical_gpus env handles0 0 w2 = Inr (0, handles, gpu_count, w3) \<and>
        unat gpu_count \<le> NVAPI_MAX_PHYSICAL_GPUS)"
    using main_cases[of env w handles0]
    by (auto simp: exit_code_of_def split: if_splits)
next
  show "(exit_code_of (main env handles0 w) = Some 1) =
     (\<exists>rc_load w1.
        load_nvapi env (printf [Rule, Title, Subtitle, Rule, Blank] w) = Inr (rc_load, w1) \<and>
        (rc_load \<noteq> 0 \<or>
         (\<exists>rc_init w2. init_nvapi env w1 = Inr (rc_init, w2) \<and>
            (rc_init \<noteq> 0 \<or>
             (\<exists>rc_enum handles gpu_count w3.
                enum_physical_gpus env handles0 0 w2 = Inr (rc_enum, handles, gpu_count, w3) \<and>
                rc_enum \<noteq> 0)))))"
    using main_cases[of env w handles0]
    by (auto simp: exit_code_of_def split: if_splits)
next
  show "\<exists>rc_load w1.
     load_nvapi env (printf [Rule, Title, Subtitle, Rule, Blank] w) = Inr (rc_load, w1) \<and>
     (if rc_load \<noteq> 0 then
        main env handles0 w = Inr (1, w1) \<and> mapped w1 = mapped w \<and>
        trace w1 = trace w @
          (if dlopen_result env = None then [DlOpen None]
           else [DlOpen (dlopen_result env), DlSym None, DlClose])
      else \<exists>rc_init w2.
        init_nvapi env w1 = Inr (rc_init, w2) \<and>
        (if rc_init \<noteq> 0 then
           \<exists>w3. main env handles0 w = Inr (1, w3) \<and> mapped w3 = mapped w \<and>
             trace w3 = trace w2 @ [DlClose]
         else \<exists>rc_enum handles gpu_count w3.
           enum_physical_gpus env handles0 0 w2 = Inr (rc_enum, handles, gpu_count, w3) \<and>
           (if rc_enum \<noteq> 0 then
              \<exists>w4. main env handles0 w = Inr (1, w4) \<and> mapped w4 = mapped w \<and>
                trace w4 = trace w3 @ spec_unload_calls env w3 \<and> last (trace w4) = DlClose
            else if unat gpu_count \<le> NVAPI_MAX_PHYSICAL_GPUS then
              \<exists>w4 blocks. main env handles0 w = Inr (0, w4) \<and> mapped w4 = mapped w \<and>
                last (trace w4) = DlClose \<and> length blocks = unat gpu_count \<and>
                out w4 = out w3 @ [FoundGpus gpu_count, Blank] @ concat blocks @ [Done]
            else main env handles0 w = Inl OutOfBounds)))"
    by (rule main_cases)
qed

text \<open>
  A driver that enumerates zero devices: the exit code is 0 and no device is reported.
\<close>

theorem main_exit_code_counterexample:
  "exit_code_of (main (sim_env never_fails (volts 850000) 0) no_handles (initial_world ()))
     = Some 0 \<and>
   stdout_of (main (sim_env never_fails (volts 850000) 0) no_handles (initial_world ())) =
     [Rule, Title, Subtitle, Rule, Blank, InitOk, Blank, FoundGpus 0, Blank, Done]"
  by (simp add: main_simps run_simps)

text \<open>
  The four failing runs: no module, no symbol, a rejected initialisation, a rejected
  enumeration. Each exits with 1, and what was opened is closed.
\<close>

theorem main_exit_code_witness:
  "exit_code_of (main (no_module (sim_env never_fails (volts 850000) 2)) no_handles
      (initial_world ())) = Some 1 \<and>
   run_trace (main (no_module (sim_env never_fails (volts 850000) 2)) no_handles
      (initial_world ())) = [DlOpen None] \<and>
   exit_code_of (main (no_symbol (sim_env never_fails (volts 850000) 2)) no_handles
      (initial_world ())) = Some 1 \<and>
   run_trace (main (no_symbol (sim_env never_fails (volts 850000) 2)) no_handles
      (initial_world ())) = [DlOpen (Some 1), DlSym None, DlClose] \<and>
   exit_code_of (main (failing_init (sim_env never_fails (volts 850000) 2)) no_handles
      (initial_world ())) = Some 1 \<and>
   run_trace (main (failing_init (sim_env never_fails (volts 850000) 2)) no_handles
      (initial_world ())) =
     [DlOpen (Some 1), DlSym (Some 1), QueryInterface QUERY_NVAPI_INITIALIZE True,
      CallInitialize 1, DlClose] \<and>
   exit_code_of (main (failing_enum (sim_env never_fails (volts 850000) 2)) no_handles
      (initial_world ())) = Some 1 \<and>
   run_trace (main (failing_enum (sim_env never_fails (volts 850000) 2)) no_handles
      (initial_world ())) =
     [DlOpen (Some 1), DlSym (Some 1), QueryInterface QUERY_NVAPI_INITIALIZE True,
      CallInitialize 0, QueryInterface QUERY_NVAPI_ENUM_PHYSICAL_GPUS True,
      CallEnumPhysicalGPUs 1 0, QueryInterface QUERY_NVAPI_UNLOAD True, CallUnload 0, DlClose]"
proof -
  let ?env = "no_module (sim_env never_fails (volts 850000) 2)"
  have "\<exists>rc w1. load_nvapi ?env (printf [Rule, Title, Subtitle, Rule, Blank] (initial_world ()))
      = Inr (rc, w1)"
    using main_exit_code[of ?env no_handles "initial_world ()"] by blast
  then have "exit_code_of (load_nvapi ?env
      (printf [Rule, Title, Subtitle, Rule, Blank] (initial_world ()))) \<noteq> None"
    by (auto simp: exit_code_of_def)
  then show ?thesis
    by (simp add: main_simps run_simps fixture_simps)
qed

section \<open>Unresolved interfaces\<close>

text \<open>
  Claim C7. In a state where the resolver can be called: for an ID the driver does not
  resolve, \<^verbatim>\<open>get_nvapi_function\<close> returns a null pointer after one line on standard error,
  and the session is as before. With the voltage ID unresolved, \<^verbatim>\<open>get_voltage\<close> returns -1
  without calling the driver and leaves \<^verbatim>\<open>*voltage_uv\<close> as it was, for which the report
  prints "Core Voltage: Not available"; with the thermal ID unresolved, \<^verbatim>\<open>get_thermals\<close>
  returns -1 in the same way, for which the report prints the two "Error reading" lines.
  The body of the device loop always completes with the whole block of the device and
  leaves the resolver callable: when the voltage ID never resolves the block has the
  voltage line "Not available" next to the temperature lines, and when the thermal ID
  never resolves it has the mask 1 and the two "Error reading" lines next to the voltage
  line. The loop over up to 64 devices completes with one block for each device.
\<close>

theorem unresolved_interface_not_fatal:
  assumes u: "usable w"
  shows
   "(\<not> fst (query_interface env ident (driver w)) \<longrightarrow>
       (\<exists>w'. get_nvapi_function env ident w = Inr (False, w') \<and> same_session w w' \<and>
          out w' = out w \<and> err w' = err w @ [ErrNoFunction ident])) \<and>
    (\<not> fst (query_interface env QUERY_NVAPI_VOLTAGE (driver w)) \<longrightarrow>
       (\<exists>w'. get_voltage env h v0 w = Inr (- 1, v0, w') \<and> same_session w w' \<and> out w' = out w \<and>
          trace w' = trace w @ [QueryInterface QUERY_NVAPI_VOLTAGE False])) \<and>
    (\<not> fst (query_interface env QUERY_NVAPI_THERMALS (driver w)) \<longrightarrow>
       (\<exists>w'. get_thermals env h m a0 b0 w = Inr (- 1, a0, b0, w') \<and> same_session w w' \<and>
          out w' = out w \<and> trace w' = trace w @ [QueryInterface QUERY_NVAPI_THERMALS False])) \<and>
    voltage_lines (- 1) v0 = [CoreVoltageNotAvailable] \<and>
    thermal_lines (- 1) a0 b0 = [HotspotErrorReading, MemoryErrorReading] \<and>
    (i < NVAPI_MAX_PHYSICAL_GPUS \<longrightarrow>
       (\<exists>w' m' rc_v v rc_t a b. report_gpu env handles i w = Inr w' \<and> usable w' \<and>
          out w' = out w @ device_block i m' (voltage_lines rc_v v) (thermal_lines rc_t a b) \<and>
          ((\<forall>d. \<not> fst (query_interface env QUERY_NVAPI_VOLTAGE d)) \<longrightarrow>
             voltage_lines rc_v v = [CoreVoltageNotAvailable]) \<and>
          ((\<forall>d. \<not> fst (query_interface env QUERY_NVAPI_THERMALS d)) \<longrightarrow>
             m' = 1 \<and> thermal_lines rc_t a b = [HotspotErrorReading, MemoryErrorReading]))) \<and>
    (n \<le> NVAPI_MAX_PHYSICAL_GPUS \<longrightarrow>
       (\<exists>w' blocks. report_gpus env handles n 0 w = Inr w' \<and> usable w' \<and>
          out w' = out w @ concat blocks \<and> length blocks = n \<and>
          (\<forall>k < n. is_device_block k (blocks ! k))))"
proof (intro conjI impI)
  assume "\<not> fst (query_interface env ident (driver w))"
  with get_nvapi_function_usable[OF u, of env ident]
  show "\<exists>w'. get_nvapi_function env ident w = Inr (False, w') \<and> same_session w w' \<and>
          out w' = out w \<and> err w' = err w @ [ErrNoFunction ident]"
    by auto
next
  assume "\<not> fst (query_interface env QUERY_NVAPI_VOLTAGE (driver w))"
  from get_voltage_unresolved[OF u this]
  show "\<exists>w'. get_voltage env h v0 w = Inr (- 1, v0, w') \<and> same_session w w' \<and> out w' = out w \<and>
          trace w' = trace w @ [QueryInterface QUERY_NVAPI_VOLTAGE False]" .
next
  assume "\<not> fst (query_interface env QUERY_NVAPI_THERMALS (driver w))"
  from get_thermals_unresolved[OF u this]
  show "\<exists>w'. get_thermals env h m a0 b0 w = Inr (- 1, a0, b0, w') \<and> same_session w w' \<and>
          out w' = out w \<and> trace w' = trace w @ [QueryInterface QUERY_NVAPI_THERMALS False]" .
next
  show "voltage_lines (- 1) v0 = [CoreVoltageNotAvailable]"
    by (simp add: voltage_lines_def)
next
  show "thermal_lines (- 1) a0 b0 = [HotspotErrorReading, MemoryErrorReading]"
    by (simp add: thermal_lines_def)
next
  assume i: "i < NVAPI_MAX_PHYSICAL_GPUS"
  from report_gpu_steps[OF u i, of env handles]
  obtain m' w2 rc_v v w3 rc_t a b w4 where
    c: "calculate_thermals_mask env (handles i)
           (printf [DashRule, GpuHeader (word_of_nat i), DashRule] w) = Inr (m', w2)"
    and gv: "get_voltage env (handles i) 0 (printf [ThermalsMask m', Blank] w2) = Inr (rc_v, v, w3)"
    and gt: "get_thermals env (handles i) m' 0 0 (printf (voltage_lines rc_v v) w3)
                = Inr (rc_t, a, b, w4)"
    and r: "report_gpu env handles i w = Inr (printf (thermal_lines rc_t a b @ [Blank]) w4)"
    and u2: "usable w2" and u3: "usable w3" and u4: "usable w4"
    and o4: "out w4 = out w @
        [DashRule, GpuHeader (word_of_nat i), DashRule, ThermalsMask m', Blank] @
        voltage_lines rc_v v"
    by blast
  let ?w' = "printf (thermal_lines rc_t a b @ [Blank]) w4"
  have 1: "usable ?w'" using u4 by simp
  have 2: "out ?w' = out w @ device_block i m' (voltage_lines rc_v v) (thermal_lines rc_t a b)"
    using o4 by (simp add: device_block_def)
  have 3: "(\<forall>d. \<not> fst (query_interface env QUERY_NVAPI_VOLTAGE d)) \<longrightarrow>
             voltage_lines rc_v v = [CoreVoltageNotAvailable]"
  proof
    assume n: "\<forall>d. \<not> fst (query_interface env QUERY_NVAPI_VOLTAGE d)"
    have "usable (printf [ThermalsMask m', Blank] w2)" using u2 by simp
    from get_voltage_unresolved[OF this, of env "handles i" 0] n gv
    have "rc_v = - 1" by auto
    then show "voltage_lines rc_v v = [CoreVoltageNotAvailable]"
      by (simp add: voltage_lines_def)
  qed
  have 4: "(\<forall>d. \<not> fst (query_interface env QUERY_NVAPI_THERMALS d)) \<longrightarrow>
             m' = 1 \<and> thermal_lines rc_t a b = [HotspotErrorReading, MemoryErrorReading]"
  proof
    assume n: "\<forall>d. \<not> fst (query_interface env QUERY_NVAPI_THERMALS d)"
    have "usable (printf [DashRule, GpuHeader (word_of_nat i), DashRule] w)" using u by simp
    from calculate_thermals_mask_no_interface[OF this, of env "handles i"] n c
    have m1: "m' = 1" by auto
    have "usable (printf (voltage_lines rc_v v) w3)" using u3 by simp
    from get_thermals_unresolved[OF this, of env "handles i" m' 0 0] n gt
    have "rc_t = - 1" by auto
    with m1 show "m' = 1 \<and> thermal_lines rc_t a b = [HotspotErrorReading, MemoryErrorReading]"
      by (simp add: thermal_lines_def)
  qed
  from r 1 2 3 4
  show "\<exists>w' m' rc_v v rc_t a b. report_gpu env handles i w = Inr w' \<and> usable w' \<and>
          out w' = out w @ device_block i m' (voltage_lines rc_v v) (thermal_lines rc_t a b) \<and>
          ((\<forall>d. \<not> fst (query_interface env QUERY_NVAPI_VOLTAGE d)) \<longrightarrow>
             voltage_lines rc_v v = [CoreVoltageNotAvailable]) \<and>
          ((\<forall>d. \<not> fst (query_interface env QUERY_NVAPI_THERMALS d)) \<longrightarrow>
             m' = 1 \<and> thermal_lines rc_t a b = [HotspotErrorReading, MemoryErrorReading])"
    by blast
next
  assume n: "n \<le> NVAPI_MAX_PHYSICAL_GPUS"
  from report_gpus_blocks[OF u n, of env handles 0]
  show "\<exists>w' blocks. report_gpus env handles n 0 w = Inr w' \<and> usable w' \<and>
          out w' = out w @ concat blocks \<and> length blocks = n \<and>
          (\<forall>k < n. is_device_block k (blocks ! k))"
    by auto
qed

text \<open>
  Two simulated runs with two devices: without the voltage ID both blocks have
  "Not available" for the voltage and the temperatures 25 and 50; without the thermal ID
  both have the voltage and "Error reading". Both runs exit with 0.
\<close>

theorem unresolved_interface_not_fatal_witness:
  "usable ready_world \<and>
   voltage_of (get_voltage (without QUERY_NVAPI_VOLTAGE (sim_env (reads 6400 12800) (volts 850000) 2))
      0 7 ready_world) = Some (- 1, 7) \<and>
   exit_code_of (main (without QUERY_NVAPI_VOLTAGE (sim_env (reads 6400 12800) (volts 850000) 2))
      no_handles (initial_world ())) = Some 0 \<and>
   stdout_of (main (without QUERY_NVAPI_VOLTAGE (sim_env (reads 6400 12800) (volts 850000) 2))
      no_handles (initial_world ())) =
     [Rule, Title, Subtitle, Rule, Blank, InitOk, Blank, FoundGpus 2, Blank,
      DashRule, GpuHeader 0, DashRule, ThermalsMask 0xFFFFFFFF, Blank,
      CoreVoltageNotAvailable, HotspotTemperature 25, MemoryTemperature 50, Blank,
      DashRule, GpuHeader 1, DashRule, ThermalsMask 0xFFFFFFFF, Blank,
      CoreVoltageNotAvailable, HotspotTemperature 25, MemoryTemperature 50, Blank, Done] \<and>
   stdout_of (main (without QUERY_NVAPI_THERMALS (sim_env (reads 6400 12800) (volts 850000) 2))
      no_handles (initial_world ())) =
     [Rule, Title, Subtitle, Rule, Blank, InitOk, Blank, FoundGpus 2, Blank,
      DashRule, GpuHeader 0, DashRule, ThermalsMask 1, Blank,
      CoreVoltage 850000, HotspotErrorReading, MemoryErrorReading, Blank,
      DashRule, GpuHeader 1, DashRule, ThermalsMask 1, Blank,
      CoreVoltage 850000, HotspotErrorReading, MemoryErrorReading, Blank, Done]"
proof -
  let ?env = "without QUERY_NVAPI_VOLTAGE (sim_env (reads 6400 12800) (volts 850000) 2)"
  have u: "usable ready_world"
    by (simp add: usable_def ready_world_def)
  have n: "\<not> fst (query_interface ?env QUERY_NVAPI_VOLTAGE (driver ready_world))"
    by (simp add: without_def)
  from unresolved_interface_not_fatal[OF u, of ?env QUERY_NVAPI_VOLTAGE 0 7] n
  obtain w' where "get_voltage ?env 0 7 ready_world = Inr (- 1, 7, w')"
    by blast
  then have "voltage_of (get_voltage ?env 0 7 ready_world) = Some (- 1, 7)"
    by (simp add: voltage_of_def)
  moreover have "exit_code_of (main ?env no_handles (initial_world ())) = Some 0"
    by (simp add: main_simps run_simps QUERY_NVAPI_VOLTAGE_def QUERY_NVAPI_THERMALS_def
        QUERY_NVAPI_INITIALIZE_def QUERY_NVAPI_ENUM_PHYSICAL_GPUS_def QUERY_NVAPI_UNLOAD_def)
  moreover have "stdout_of (main ?env no_handles (initial_world ())) =
     [Rule, Title, Subtitle, Rule, Blank, InitOk, Blank, FoundGpus 2, Blank,
      DashRule, GpuHeader 0, DashRule, ThermalsMask 0xFFFFFFFF, Blank,
      CoreVoltageNotAvailable, HotspotTemperature 25, MemoryTemperature 50, Blank,
      DashRule, GpuHeader 1, DashRule, ThermalsMask 0xFFFFFFFF, Blank,
      CoreVoltageNotAvailable, HotspotTemperature 25, MemoryTemperature 50, Blank, Done]"
    by (simp add: main_simps run_simps QUERY_NVAPI_VOLTAGE_def QUERY_NVAPI_THERMALS_def
        QUERY_NVAPI_INITIALIZE_def QUERY_NVAPI_ENUM_PHYSICAL_GPUS_def QUERY_NVAPI_UNLOAD_def)
  moreover have "stdout_of (main (without QUERY_NVAPI_THERMALS
        (sim_env (reads 6400 12800) (volts 850000) 2)) no_handles (initial_world ())) =
     [Rule, Title, Subtitle, Rule, Blank, InitOk, Blank, FoundGpus 2, Blank,
      DashRule, GpuHeader 0, DashRule, ThermalsMask 1, Blank,
      CoreVoltage 850000, HotspotErrorReading, MemoryErrorReading, Blank,
      DashRule, GpuHeader 1, DashRule, ThermalsMask 1, Blank,
      CoreVoltage 850000, HotspotErrorReading, MemoryErrorReading, Blank, Done]"
    by (simp add: main_simps run_simps QUERY_NVAPI_VOLTAGE_def QUERY_NVAPI_THERMALS_def
        QUERY_NVAPI_INITIALIZE_def QUERY_NVAPI_ENUM_PHYSICAL_GPUS_def QUERY_NVAPI_UNLOAD_def)
  ultimately show ?thesis
    using u by simp
qed

section \<open>Unloading\<close>

text \<open>
  Claim C8, as amended. \<^verbatim>\<open>unload_nvapi\<close> returns in every state but one: when the query
  interface global is set and its module is no longer mapped, the call through that
  pointer is undefined. In every other state it returns, having resolved the unload
  entry only if the query interface is set, invoked it only if it resolved, and called
  \<^verbatim>\<open>dlclose\<close> only if the handle is set; it leaves both globals as they were. This covers
  the initial state, the state after a load that failed (on the module or on the symbol)
  and every state after a successful load, whether or not the initialisation succeeded.
\<close>

theorem unload_nvapi_once:
  "(nvapi_QueryInterface w \<noteq> None \<and> mapped w = 0 \<longrightarrow> unload_nvapi env w = Inl StaleCall) \<and>
   (nvapi_QueryInterface w = None \<or> 0 < mapped w \<longrightarrow>
      (\<exists>w'. unload_nvapi env w = Inr w' \<and>
         trace w' = trace w @ spec_unload_calls env w \<and>
         mapped w' = (if nvapi_lib w = None then mapped w else mapped w - 1) \<and>
         nvapi_lib w' = nvapi_lib w \<and> nvapi_QueryInterface w' = nvapi_QueryInterface w \<and>
         out w' = out w))"
proof (intro conjI impI)
  assume "nvapi_QueryInterface w \<noteq> None \<and> mapped w = 0"
  then show "unload_nvapi env w = Inl StaleCall"
    by (simp add: unload_nvapi_stale)
next
  assume "nvapi_QueryInterface w = None \<or> 0 < mapped w"
  then have "nvapi_QueryInterface w \<noteq> None \<longrightarrow> 0 < mapped w"
    by auto
  then show "\<exists>w'. unload_nvapi env w = Inr w' \<and>
         trace w' = trace w @ spec_unload_calls env w \<and>
         mapped w' = (if nvapi_lib w = None then mapped w else mapped w - 1) \<and>
         nvapi_lib w' = nvapi_lib w \<and> nvapi_QueryInterface w' = nvapi_QueryInterface w \<and>
         out w' = out w"
    by (rule unload_nvapi_fresh)
qed

text \<open>
  The call is not idempotent: it leaves the globals set, so a second call after a
  successful load goes through the pointer into the module the first call unmapped.
\<close>

theorem unload_nvapi_once_counterexample:
  "(\<exists>w'. unload_nvapi (sim_env never_fails (volts 850000) 1) ready_world = Inr w' \<and>
      nvapi_QueryInterface w' = Some 1 \<and> mapped w' = 0) \<and>
   unload_twice (sim_env never_fails (volts 850000) 1) ready_world = Inl StaleCall"
  by (simp add: unload_twice_def unload_nvapi_def get_nvapi_function_def dlclose_def world_ops
      sim_simps)

text \<open>
  After a load, one call invokes the unload entry and closes the module, and a second
  one is the undefined call. In the initial state the call does nothing. After a load
  that failed on the missing symbol, which closed the module and kept the handle, the
  call makes a second \<^verbatim>\<open>dlclose\<close>, which unmaps nothing, and returns.
\<close>

theorem unload_nvapi_once_witness:
  "(\<exists>w'. unload_nvapi (sim_env never_fails (volts 850000) 1) ready_world = Inr w' \<and>
      trace w' = [QueryInterface QUERY_NVAPI_UNLOAD True, CallUnload 0, DlClose] \<and>
      mapped w' = 0 \<and>
      unload_nvapi (sim_env never_fails (volts 850000) 1) w' = Inl StaleCall) \<and>
   unload_nvapi (sim_env never_fails (volts 850000) 1) (initial_world ())
     = Inr (initial_world ()) \<and>
   (\<exists>w'. load_then_unload (no_symbol (sim_env never_fails (volts 850000) 1)) (initial_world ())
            = Inr w' \<and>
      trace w' = [DlOpen (Some 1), DlSym None, DlClose, DlClose] \<and> mapped w' = 0 \<and>
      nvapi_lib w' = Some 1 \<and> nvapi_QueryInterface w' = None)"
proof -
  let ?env = "sim_env never_fails (volts 850000) 1"
  have "nvapi_QueryInterface ready_world = None \<or> 0 < mapped ready_world"
    by (simp add: ready_world_def)
  with unload_nvapi_once[of ready_world ?env]
  obtain w' where r: "unload_nvapi ?env ready_world = Inr w'"
    and t: "trace w' = trace ready_world @ spec_unload_calls ?env ready_world"
    and m: "mapped w' = (if nvapi_lib ready_world = None then mapped ready_world
                          else mapped ready_world - 1)"
    and g: "nvapi_QueryInterface w' = nvapi_QueryInterface ready_world"
    by blast
  have t': "trace w' = [QueryInterface QUERY_NVAPI_UNLOAD True, CallUnload 0, DlClose]"
    using t by (simp add: spec_unload_calls_def sim_simps)
  have m': "mapped w' = 0"
    using m by (simp add: ready_world_def)
  have "nvapi_QueryInterface w' \<noteq> None \<and> mapped w' = 0"
    using g m' by (simp add: ready_world_def)
  with unload_nvapi_once[of w' ?env]
  have s: "unload_nvapi ?env w' = Inl StaleCall"
    by blast
  have a: "\<exists>w'. unload_nvapi ?env ready_world = Inr w' \<and>
      trace w' = [QueryInterface QUERY_NVAPI_UNLOAD True, CallUnload 0, DlClose] \<and>
      mapped w' = 0 \<and> unload_nvapi ?env w' = Inl StaleCall"
    using r t' m' s by blast
  have b: "unload_nvapi ?env (initial_world ()) = Inr (initial_world ())"
    by (simp add: unload_nvapi_def initial_world_def)
  have c: "\<exists>w'. load_then_unload (no_symbol ?env) (initial_world ()) = Inr w' \<and>
      trace w' = [DlOpen (Some 1), DlSym None, DlClose, DlClose] \<and> mapped w' = 0 \<and>
      nvapi_lib w' = Some 1 \<and> nvapi_QueryInterface w' = None"
    by (simp add: load_then_unload_def no_symbol_def unload_nvapi_def load_nvapi_def
        initial_world_def get_nvapi_function_def dlclose_def world_ops sim_simps Let_def)
  show ?thesis
    by (intro conjI a b c)
qed

section \<open>The prober without a thermal interface\<close>

text \<open>
  Claim C9. In a state where the resolver can be called: if the thermal ID does not
  resolve, \<^verbatim>\<open>calculate_thermals_mask\<close> returns the mask 1 after the one resolver call,
  without calling the driver's thermal entry and without printing to standard output;
  if the ID resolves and the baseline call fails, it returns the mask 1 as well. The
  result carries nothing but the mask.
\<close>

theorem calculate_thermals_mask_unresolved:
  assumes u: "usable w"
  shows "(\<not> fst (query_interface env QUERY_NVAPI_THERMALS (driver w)) \<longrightarrow>
           (\<exists>w'. calculate_thermals_mask env h w = Inr (1, w') \<and>
                  trace w' = trace w @ [QueryInterface QUERY_NVAPI_THERMALS False] \<and>
                  out w' = out w \<and> same_session w w')) \<and>
         (fst (query_interface env QUERY_NVAPI_THERMALS (driver w)) \<and>
          fst (nv_thermals env h (zero_NvApiThermals\<lparr>th_version := thermals_stamp, th_mask := 1\<rparr>)
                 (snd (query_interface env QUERY_NVAPI_THERMALS (driver w)))) \<noteq> 0 \<longrightarrow>
           (\<exists>w'. calculate_thermals_mask env h w = Inr (1, w') \<and>
                  out w' = out w \<and> same_session w w'))"
proof (intro conjI impI)
  assume n: "\<not> fst (query_interface env QUERY_NVAPI_THERMALS (driver w))"
  from get_nvapi_function_usable[OF u, of env QUERY_NVAPI_THERMALS] n
  obtain w1 where "get_nvapi_function env QUERY_NVAPI_THERMALS w = Inr (False, w1)"
    "same_session w w1" "out w1 = out w"
    "trace w1 = trace w @ [QueryInterface QUERY_NVAPI_THERMALS False]"
    by auto
  then show "\<exists>w'. calculate_thermals_mask env h w = Inr (1, w') \<and>
                  trace w' = trace w @ [QueryInterface QUERY_NVAPI_THERMALS False] \<and>
                  out w' = out w \<and> same_session w w'"
    by (simp add: calculate_thermals_mask_def)
next
  let ?t0 = "zero_NvApiThermals\<lparr>th_version := thermals_stamp, th_mask := 1\<rparr>"
  assume a: "fst (query_interface env QUERY_NVAPI_THERMALS (driver w)) \<and>
          fst (nv_thermals env h ?t0 (snd (query_interface env QUERY_NVAPI_THERMALS (driver w)))) \<noteq> 0"
  from get_nvapi_function_usable[OF u, of env QUERY_NVAPI_THERMALS] a
  obtain w1 where g: "get_nvapi_function env QUERY_NVAPI_THERMALS w = Inr (True, w1)"
    and s1: "same_session w w1" and o1: "out w1 = out w"
    and d1: "driver w1 = snd (query_interface env QUERY_NVAPI_THERMALS (driver w))"
    by auto
  obtain st t1 w2 where c: "call_thermals env h ?t0 w1 = (st, t1, w2)"
    by (cases "call_thermals env h ?t0 w1") auto
  from call_thermals_frame[OF c] d1 a
  have "st \<noteq> 0" "same_session w1 w2" "out w2 = out w1" by auto
  with g c s1 o1
  show "\<exists>w'. calculate_thermals_mask env h w = Inr (1, w') \<and> out w' = out w \<and> same_session w w'"
    by (simp add: calculate_thermals_mask_def eprintf_def same_session_def)
qed

text \<open>
  An unresolved ID, a failed baseline query and a driver that accepts only bit 0 all
  give the mask 1.
\<close>

theorem calculate_thermals_mask_unresolved_witness:
  "usable ready_world \<and>
   mask_of (calculate_thermals_mask
      (without QUERY_NVAPI_THERMALS (sim_env never_fails (volts 850000) 1)) 0 ready_world) = Some 1 \<and>
   mask_of (calculate_thermals_mask (sim_env always_fails (volts 850000) 1) 0 ready_world) = Some 1 \<and>
   mask_of (calculate_thermals_mask (sim_env (fails_above 0) (volts 850000) 1) 0 ready_world)
     = Some 1"
proof -
  let ?env = "without QUERY_NVAPI_THERMALS (sim_env never_fails (volts 850000) 1)"
  have u: "usable ready_world"
    by (simp add: usable_def ready_world_def)
  have n: "\<not> fst (query_interface ?env QUERY_NVAPI_THERMALS (driver ready_world))"
    by (simp add: without_def)
  from calculate_thermals_mask_unresolved[OF u, of ?env 0] n
  obtain w' where "calculate_thermals_mask ?env 0 ready_world = Inr (1, w')"
    by blast
  then have "mask_of (calculate_thermals_mask ?env 0 ready_world) = Some 1"
    by (simp add: mask_of_def)
  moreover have "mask_of (calculate_thermals_mask (sim_env always_fails (volts 850000) 1) 0
      ready_world) = Some 1"
    by (simp add: run_simps mask_of_def)
  moreover have "mask_of (calculate_thermals_mask (sim_env (fails_above 0) (volts 850000) 1) 0
      ready_world) = Some 1"
    by (simp add: run_simps mask_of_def probe_bits.simps)
  ultimately show ?thesis
    using u by simp
qed

section \<open>The mask argument of the thermal reader\<close>

text \<open>
  Claim C10. Take two calls of \<^verbatim>\<open>get_thermals\<close> that return 0, with any two masks (and any
  drivers, devices and states). Each passed its own mask to the driver, and each decoded
  the slots 9 and 15 of the structure its driver call left. If the two structures agree
  in slot 9 the hotspot results are equal, if they agree in slot 15 the memory results
  are equal, and if they agree in both the same lines are printed: the masks play no part.
\<close>

theorem get_thermals_ignores_mask:
  assumes "get_thermals env1 h1 m1 a1 b1 w1 = Inr (0, x1, y1, w1')"
    and "get_thermals env2 h2 m2 a2 b2 w2 = Inr (0, x2, y2, w2')"
  shows "\<exists>t1 t1' t2 t2'.
     last (trace w1') = CallThermals h1 t1 0 t1' \<and> th_mask t1 = m1 \<and>
     last (trace w2') = CallThermals h2 t2 0 t2' \<and> th_mask t2 = m2 \<and>
     x1 = decode_temperature (th_values t1' 9) \<and> y1 = decode_temperature (th_values t1' 15) \<and>
     x2 = decode_temperature (th_values t2' 9) \<and> y2 = decode_temperature (th_values t2' 15) \<and>
     (th_values t1' 9 = th_values t2' 9 \<longrightarrow> x1 = x2) \<and>
     (th_values t1' 15 = th_values t2' 15 \<longrightarrow> y1 = y2) \<and>
     (th_values t1' 9 = th_values t2' 9 \<and> th_values t1' 15 = th_values t2' 15 \<longrightarrow>
        thermal_lines 0 x1 y1 = thermal_lines 0 x2 y2)"
proof -
  from get_thermals_success[OF assms(1)]
  obtain t1' where 1: "last (trace w1') =
      CallThermals h1 (zero_NvApiThermals\<lparr>th_version := thermals_stamp, th_mask := m1\<rparr>) 0 t1'"
    "x1 = decode_temperature (th_values t1' 9)" "y1 = decode_temperature (th_values t1' 15)"
    by blast
  from get_thermals_success[OF assms(2)]
  obtain t2' where 2: "last (trace w2') =
      CallThermals h2 (zero_NvApiThermals\<lparr>th_version := thermals_stamp, th_mask := m2\<rparr>) 0 t2'"
    "x2 = decode_temperature (th_values t2' 9)" "y2 = decode_temperature (th_values t2' 15)"
    by blast
  show ?thesis
    using 1 2
    by (intro exI[of _ "zero_NvApiThermals\<lparr>th_version := thermals_stamp, th_mask := m1\<rparr>"]
              exI[of _ t1']
              exI[of _ "zero_NvApiThermals\<lparr>th_version := thermals_stamp, th_mask := m2\<rparr>"]
              exI[of _ t2'])
       simp
qed

text \<open>With the masks 1, 0 and \<open>0xFFFFFFFF\<close> the same raw values give the same readings.\<close>

theorem get_thermals_ignores_mask_witness:
  "temps_of (get_thermals (sim_env (reads 6400 12800) (volts 850000) 1) 0 1 0 0 ready_world)
     = Some (0, 25, 50) \<and>
   temps_of (get_thermals (sim_env (reads 6400 12800) (volts 850000) 1) 0 0 0 0 ready_world)
     = Some (0, 25, 50) \<and>
   temps_of (get_thermals (sim_env (reads 6400 12800) (volts 850000) 1) 0 0xFFFFFFFF 0 0
       ready_world) = Some (0, 25, 50)"
proof -
  let ?env = "sim_env (reads 6400 12800) (volts 850000) 1"
  have "\<exists>w'. get_thermals ?env 0 1 0 0 ready_world = Inr (0, 25, 50, w')"
    by (simp add: run_simps decode_temperature_sdiv signed_divide_int_def)
  then obtain w1' where run1: "get_thermals ?env 0 1 0 0 ready_world = Inr (0, 25, 50, w1')"
    by blast
  have "\<exists>w'. get_thermals ?env 0 0 0 0 ready_world = Inr (0, 25, 50, w')"
    by (simp add: run_simps decode_temperature_sdiv signed_divide_int_def)
  then obtain w2' where run2: "get_thermals ?env 0 0 0 0 ready_world = Inr (0, 25, 50, w2')"
    by blast
  have "\<exists>(t1 :: NvApiThermals) (t2 :: NvApiThermals). th_mask t1 = 1 \<and> th_mask t2 = 0"
    using get_thermals_ignores_mask[OF run1 run2]
    by blast
  moreover have "temps_of (get_thermals ?env 0 0xFFFFFFFF 0 0 ready_world) = Some (0, 25, 50)"
    by (simp add: run_simps temps_of_def decode_temperature_sdiv signed_divide_int_def)
  ultimately show ?thesis
    using run1 run2 by (simp add: temps_of_def)
qed

end
